theory Spec2Isabelle
  imports Complex_Main "HOL-Library.Char_ord" "HOL-Library.List_Lexorder" "HOL-Library.Product_Lexorder"
begin

section \<open>Data model\<close>

text \<open>
  Both scripts load the same pipe-delimited snapshot into a pandas DataFrame. A categorical or
  object cell is a string or missing (\<open>None\<close>, pandas' NaN); a \<open>float\<close> cell is a
  finite value or NaN (\<open>None\<close>). Finite floating-point values are read as the rationals
  they denote; every comparison the scripts make on them is against an integer threshold, which
  is exact on such values. \<open>count\<close> and \<open>snapshot_yyyymm\<close> are \<open>int32\<close> columns, which
  cannot hold a missing value; pandas adds them up in 64 bits, and a sum of \<open>int32\<close> values
  leaves that range only beyond \<open>2^32\<close> rows, so the sums are taken in \<open>int\<close>.
\<close>

type_synonym pyfloat = "rat option"

datatype py_error =
    FileNotFoundError string
  | FileExistsError string
  | IsADirectoryError string
  | NotADirectoryError string
  | ParserError
  | ValueError
  | IndexError

text \<open>
  One line of the source file, with the columns that the steps modelled below read. The
  remaining columns (codes, grade, work schedule and the like) only feed floating-point
  averages or nothing at all.
\<close>

record row =
  age_bracket :: "string option"
  agency :: "string option"
  agency_code :: "string option"
  annualized_adjusted_basic_pay :: "string option"
  appointment_type :: "string option"
  count :: int
  duty_station_state :: "string option"
  duty_station_state_abbreviation :: "string option"
  education_level :: "string option"
  length_of_service_years :: pyfloat
  occupational_group :: "string option"
  occupational_series :: "string option"
  snapshot_yyyymm :: int
  stem_occupation :: "string option"
  supervisory_status :: "string option"

text \<open>
  A row of the DataFrame after the cleaning step: the source row and the columns the scripts
  add to it. The dashboard script adds \<open>pay_numeric\<close> and \<open>pay_band\<close> (here
  \<open>pay_band_col\<close>, the name \<open>pay_band\<close> being the function's); the full export adds
  \<open>is_redacted\<close> and \<open>tenure_category\<close> as well.
\<close>

record clean_row =
  src :: row
  pay_numeric :: pyfloat
  pay_band_col :: string

record full_row = clean_row +
  is_redacted :: bool
  tenure_category :: string

subsection \<open>Numeric conversion\<close>

text \<open>
  \<open>pd.to_numeric\<close> is library code. Its reading of a cell is modelled for plain decimal
  numerals: an optional sign, digits, and an optional fractional part. The library accepts a
  few more spellings (exponents, surrounding blanks, \<open>inf\<close>); they are all different from
  the sentinel and are treated as unparsable here.
\<close>

definition is_digit :: "char \<Rightarrow> bool" where
  "is_digit c = (CHR ''0'' \<le> c \<and> c \<le> CHR ''9'')"

definition digits_value :: "string \<Rightarrow> nat" where
  "digits_value s = foldl (\<lambda>n c. 10 * n + (of_char c - 48)) 0 s"

definition unsigned_literal :: "string \<Rightarrow> rat option" where
  "unsigned_literal s =
     (let ip = takeWhile (\<lambda>c. c \<noteq> CHR ''.'') s;
          fp = drop 1 (dropWhile (\<lambda>c. c \<noteq> CHR ''.'') s)
      in if list_all is_digit (ip @ fp) \<and> ip @ fp \<noteq> []
         then Some (of_nat (digits_value (ip @ fp)) / 10 ^ length fp)
         else None)"

definition float_literal :: "string \<Rightarrow> rat option" where
  "float_literal s =
     (case s of
        [] \<Rightarrow> None
      | c # t \<Rightarrow>
          if c = CHR ''-'' then map_option uminus (unsigned_literal t)
          else if c = CHR ''+'' then unsigned_literal t
          else unsigned_literal s)"

text \<open>
  The \<open>errors\<close> argument of \<open>pd.to_numeric\<close>: with \<open>'raise'\<close> an unparsable cell is a
  \<open>ValueError\<close>, with \<open>'coerce'\<close> it becomes NaN. A cell that is already missing stays
  missing.
\<close>

datatype errors_mode = Raise | Coerce

definition to_numeric :: "errors_mode \<Rightarrow> string option \<Rightarrow> py_error + pyfloat" where
  "to_numeric errors cell =
     (case cell of
        None \<Rightarrow> Inr None
      | Some s \<Rightarrow>
          (case float_literal s of
             Some v \<Rightarrow> Inr (Some v)
           | None \<Rightarrow> (case errors of Coerce \<Rightarrow> Inr None | Raise \<Rightarrow> Inl ValueError)))"

text \<open>A column operation stops at the first cell that raises.\<close>

fun traverse :: "('a \<Rightarrow> 'e + 'b) \<Rightarrow> 'a list \<Rightarrow> 'e + 'b list" where
  "traverse f [] = Inr []"
| "traverse f (x # xs) =
     (case f x of
        Inl e \<Rightarrow> Inl e
      | Inr y \<Rightarrow> (case traverse f xs of Inl e \<Rightarrow> Inl e | Inr ys \<Rightarrow> Inr (y # ys)))"

subsection \<open>Pay bands\<close>

text \<open>\<open>pay_band\<close> of \<open>create_dashboard_data.py\<close>; \<open>pd.isna\<close> is the test for \<open>None\<close>.\<close>

definition pay_band :: "pyfloat \<Rightarrow> string" where
  "pay_band pay =
     (case pay of
        None \<Rightarrow> ''Redacted''
      | Some p \<Rightarrow>
          if p < 50000 then ''Under $50K''
          else if p < 75000 then ''$50K-$75K''
          else if p < 100000 then ''$75K-$100K''
          else if p < 125000 then ''$100K-$125K''
          else if p < 150000 then ''$125K-$150K''
          else if p < 200000 then ''$150K-$200K''
          else ''$200K+'')"

definition band_order :: "string list" where
  "band_order = [''Under $50K'', ''$50K-$75K'', ''$75K-$100K'', ''$100K-$125K'',
                 ''$125K-$150K'', ''$150K-$200K'', ''$200K+'', ''Redacted'']"

text \<open>\<open>categorize_pay\<close> of \<open>process_data.py\<close>, with its own thresholds.\<close>

definition categorize_pay :: "pyfloat \<Rightarrow> string" where
  "categorize_pay pay =
     (case pay of
        None \<Rightarrow> ''Unknown/Redacted''
      | Some p \<Rightarrow>
          if p < 40000 then ''< $40K''
          else if p < 60000 then ''$40K-$60K''
          else if p < 80000 then ''$60K-$80K''
          else if p < 100000 then ''$80K-$100K''
          else if p < 150000 then ''$100K-$150K''
          else if p < 200000 then ''$150K-$200K''
          else ''$200K+'')"

text \<open>
  The full export never lists its bands; this is the set of strings \<open>categorize_pay\<close>
  returns, in threshold order.
\<close>

definition pay_categories :: "string list" where
  "pay_categories = [''< $40K'', ''$40K-$60K'', ''$60K-$80K'', ''$80K-$100K'',
                     ''$100K-$150K'', ''$150K-$200K'', ''$200K+'', ''Unknown/Redacted'']"

subsection \<open>Tenure bands and the cleaning step\<close>

text \<open>\<open>categorize_tenure\<close> of \<open>process_data.py\<close>.\<close>

definition categorize_tenure :: "pyfloat \<Rightarrow> string" where
  "categorize_tenure years =
     (case years of
        None \<Rightarrow> ''Unknown''
      | Some y \<Rightarrow>
          if y < 1 then ''< 1 year''
          else if y < 5 then ''1-5 years''
          else if y < 10 then ''5-10 years''
          else if y < 20 then ''10-20 years''
          else if y < 30 then ''20-30 years''
          else ''30+ years'')"

text \<open>
  \<open>create_dashboard_data.py\<close>, lines 41 and 83: \<open>pay_numeric\<close> by coercion, then the band
  of each row.
\<close>

definition derive_dashboard :: "row \<Rightarrow> py_error + clean_row" where
  "derive_dashboard r =
     (case to_numeric Coerce (annualized_adjusted_basic_pay r) of
        Inl e \<Rightarrow> Inl e
      | Inr p \<Rightarrow> Inr \<lparr>src = r, pay_numeric = p, pay_band_col = pay_band p\<rparr>)"

definition clean_dashboard :: "row list \<Rightarrow> py_error + clean_row list" where
  "clean_dashboard df = traverse derive_dashboard df"

text \<open>
  \<open>process_data.py\<close>, lines 72 to 99: \<open>pay_numeric\<close> by coercion, \<open>is_redacted\<close> by
  comparing the raw cell with the sentinel, the tenure band and the pay band.
\<close>

definition derive_process :: "row \<Rightarrow> py_error + full_row" where
  "derive_process r =
     (case to_numeric Coerce (annualized_adjusted_basic_pay r) of
        Inl e \<Rightarrow> Inl e
      | Inr p \<Rightarrow>
          Inr \<lparr>src = r, pay_numeric = p, pay_band_col = categorize_pay p,
               is_redacted = (annualized_adjusted_basic_pay r = Some ''REDACTED''),
               tenure_category = categorize_tenure (length_of_service_years r)\<rparr>)"

definition clean_process :: "row list \<Rightarrow> py_error + full_row list" where
  "clean_process df = traverse derive_process df"

subsection \<open>Grouping and aggregation\<close>

text \<open>
  \<open>DataFrame.groupby\<close> is library code; this is its behaviour for the calls the scripts
  make (\<open>sort=True\<close> and \<open>dropna=True\<close> by default). A row belongs to a group only when
  every key cell is present. The categories of a column are its distinct present values in
  ascending order, as \<open>read_csv\<close> and \<open>astype('category')\<close> build them. With
  \<open>observed=True\<close> the groups are the key combinations that occur, in ascending order; with
  \<open>observed=False\<close> they are all combinations of the categories of the key columns.
\<close>

definition group_key :: "('r \<Rightarrow> string option) list \<Rightarrow> 'r \<Rightarrow> string list option" where
  "group_key keys r = those (map (\<lambda>c. c r) keys)"

definition categories :: "('r \<Rightarrow> string option) \<Rightarrow> 'r list \<Rightarrow> string list" where
  "categories c df = sort (remdups (List.map_filter c df))"

definition group_index ::
  "bool \<Rightarrow> ('r \<Rightarrow> string option) list \<Rightarrow> 'r list \<Rightarrow> string list list" where
  "group_index observed keys df =
     (if observed then sort (remdups (List.map_filter (group_key keys) df))
      else product_lists (map (\<lambda>c. categories c df) keys))"

definition group_rows :: "('r \<Rightarrow> string option) list \<Rightarrow> 'r list \<Rightarrow> string list \<Rightarrow> 'r list" where
  "group_rows keys df k = filter (\<lambda>r. group_key keys r = Some k) df"

text \<open>The \<open>'sum'\<close> of \<open>count\<close> over the rows of a group; an empty group sums to 0.\<close>

definition count_sum :: "('a clean_row_scheme) list \<Rightarrow> int" where
  "count_sum g = sum_list (map (\<lambda>r. count (src r)) g)"

text \<open>
  The \<open>'mean'\<close> skips missing values and is missing when nothing is left. \<open>round(2)\<close>
  rounds the scaled value half to even. Both are taken in exact arithmetic: the rounding
  error of the floating-point mean is outside this model, and \<open>avg_pay\<close> is kept only
  because one table is sorted by it.
\<close>

definition mean :: "pyfloat list \<Rightarrow> pyfloat" where
  "mean xs =
     (let vs = List.map_filter id xs
      in if vs = [] then None else Some (sum_list vs / of_nat (length vs)))"

definition rint :: "rat \<Rightarrow> int" where
  "rint x =
     (let f = \<lfloor>x\<rfloor>; d = x - of_int f
      in if d < 1 / 2 then f else if 1 / 2 < d then f + 1 else if even f then f else f + 1)"

definition round2 :: "pyfloat \<Rightarrow> pyfloat" where
  "round2 x = map_option (\<lambda>v. of_int (rint (v * 100)) / 100) x"

text \<open>
  A row of an aggregate table after \<open>reset_index\<close>: the key cells, the count sum (the column
  is named \<open>employees\<close> in the dashboard script and \<open>count_sum\<close>, \<open>employee_count\<close> or
  \<open>count\<close> in the full export) and, where the table has one, the mean pay. The other
  aggregate columns are floating-point means, medians and deviations that no filter or sort
  reads.
\<close>

record sum_row =
  key :: "string list"
  employees :: int

record agg = sum_row +
  avg_pay :: pyfloat

definition groupby_sum ::
  "bool \<Rightarrow> (('a clean_row_scheme) \<Rightarrow> string option) list \<Rightarrow> ('a clean_row_scheme) list
     \<Rightarrow> sum_row list" where
  "groupby_sum observed keys df =
     map (\<lambda>k. \<lparr>key = k, employees = count_sum (group_rows keys df k)\<rparr>)
       (group_index observed keys df)"

definition groupby_agg ::
  "bool \<Rightarrow> (('a clean_row_scheme) \<Rightarrow> string option) list \<Rightarrow> ('a clean_row_scheme) list
     \<Rightarrow> agg list" where
  "groupby_agg observed keys df =
     map (\<lambda>k. \<lparr>key = k, employees = count_sum (group_rows keys df k),
               avg_pay = round2 (mean (map pay_numeric (group_rows keys df k)))\<rparr>)
       (group_index observed keys df)"

subsection \<open>Filters and sorts\<close>

text \<open>\<open>t[t['employees'] > 0]\<close>.\<close>

definition positive :: "('a sum_row_scheme) list \<Rightarrow> ('a sum_row_scheme) list" where
  "positive t = filter (\<lambda>a. 0 < employees a) t"

text \<open>
  \<open>sort_values\<close> is library code. It is modelled by a stable sort; the library's default
  algorithm may order rows with equal sort values differently, and nothing below depends on
  the order among such rows. A descending sort is an ascending sort on the negated value, and
  missing values go last in either direction.
\<close>

definition by_employees_desc :: "('a sum_row_scheme) list \<Rightarrow> ('a sum_row_scheme) list" where
  "by_employees_desc t = sort_key (\<lambda>a. - employees a) t"

definition desc_nan_last :: "pyfloat \<Rightarrow> bool \<times> rat" where
  "desc_nan_last x = (case x of None \<Rightarrow> (True, 0) | Some v \<Rightarrow> (False, - v))"

definition by_avg_pay_desc :: "agg list \<Rightarrow> agg list" where
  "by_avg_pay_desc t = sort_key (\<lambda>a. desc_nan_last (avg_pay a)) t"

text \<open>The cell of the \<open>i\<close>-th key column of an aggregate row.\<close>

definition key_at :: "nat \<Rightarrow> ('a sum_row_scheme) \<Rightarrow> string option" where
  "key_at i a = (if i < length (key a) then Some (key a ! i) else None)"

text \<open>\<open>order.index(x) if x in order else 99\<close>.\<close>

fun index_of :: "'a list \<Rightarrow> 'a \<Rightarrow> nat" where
  "index_of [] x = 0"
| "index_of (y # ys) x = (if x = y then 0 else Suc (index_of ys x))"

definition rank :: "string list \<Rightarrow> string option \<Rightarrow> nat" where
  "rank order x =
     (case x of
        None \<Rightarrow> 99
      | Some b \<Rightarrow> if b \<in> set order then index_of order b else 99)"

definition by_rank :: "string list \<Rightarrow> ('a sum_row_scheme) list \<Rightarrow> ('a sum_row_scheme) list" where
  "by_rank order t = sort_key (\<lambda>a. rank order (key_at 0 a)) t"

text \<open>
  The key column of a grouped table is categorical, with the categories of the source
  column. \<open>Series.apply\<close> on a categorical column maps the categories. When the images
  are pairwise different the result is categorical again: its categories are the images, in
  the order of the original categories, and each row keeps its code; \<open>sort_values\<close>
  orders a categorical column by code, that is by the position of the original category, not
  by the image. When two categories have the same image the result is a plain column of the
  images, ordered by value.
\<close>

definition category_code :: "string list \<Rightarrow> string option \<Rightarrow> nat" where
  "category_code cats x = (case x of None \<Rightarrow> length cats | Some c \<Rightarrow> index_of cats c)"

definition by_rank_categorical ::
  "string list \<Rightarrow> string list \<Rightarrow> ('a sum_row_scheme) list \<Rightarrow> ('a sum_row_scheme) list" where
  "by_rank_categorical order cats t =
     (if distinct (map (\<lambda>c. rank order (Some c)) cats)
      then sort_key (\<lambda>a. category_code cats (key_at 0 a)) t
      else by_rank order t)"

definition age_order :: "string list" where
  "age_order = [''LESS THAN 20'', ''20-24'', ''25-29'', ''30-34'', ''35-39'', ''40-44'',
                ''45-49'', ''50-54'', ''55-59'', ''60-64'', ''65 OR MORE'']"

subsection \<open>The tables of \<open>create_dashboard_data.py\<close>\<close>

text \<open>
  Every \<open>groupby\<close> of this script passes \<open>observed=True\<close>. The \<open>band\<close> column of
  the pay distribution is a plain column of strings, its key having been made by \<open>apply\<close>
  on a column of numbers; the \<open>age_bracket\<close> column of the age table is categorical.
\<close>

definition agency_data :: "clean_row list \<Rightarrow> agg list" where
  "agency_data df = by_employees_desc (positive (groupby_agg True [\<lambda>r. agency (src r)] df))"

definition state_data :: "clean_row list \<Rightarrow> agg list" where
  "state_data df =
     filter (\<lambda>a. key_at 0 a \<noteq> Some ''REDACTED'')
       (by_employees_desc (positive (groupby_agg True
          [\<lambda>r. duty_station_state (src r), \<lambda>r. duty_station_state_abbreviation (src r)] df)))"

definition pay_dist :: "clean_row list \<Rightarrow> sum_row list" where
  "pay_dist df = by_rank band_order (groupby_sum True [\<lambda>r. Some (pay_band_col r)] df)"

definition edu_data :: "clean_row list \<Rightarrow> agg list" where
  "edu_data df = by_avg_pay_desc (positive (groupby_agg True [\<lambda>r. education_level (src r)] df))"

definition appt_data :: "clean_row list \<Rightarrow> agg list" where
  "appt_data df =
     by_employees_desc (positive (groupby_agg True [\<lambda>r. appointment_type (src r)] df))"

definition age_data :: "clean_row list \<Rightarrow> agg list" where
  "age_data df =
     by_rank_categorical age_order (categories (\<lambda>r. age_bracket (src r)) df)
       (positive (groupby_agg True [\<lambda>r. age_bracket (src r)] df))"

definition stem_data :: "clean_row list \<Rightarrow> agg list" where
  "stem_data df = positive (groupby_agg True [\<lambda>r. stem_occupation (src r)] df)"

definition super_data :: "clean_row list \<Rightarrow> agg list" where
  "super_data df =
     by_employees_desc (positive (groupby_agg True [\<lambda>r. supervisory_status (src r)] df))"

text \<open>
  The integer entries of \<open>overall\<close>; \<open>nunique\<close> counts distinct present values. The other
  entries are floating-point statistics and a fixed snapshot label.
\<close>

record overall_rec =
  total_employees :: int
  total_agencies :: nat
  total_states :: nat

definition nunique :: "string option list \<Rightarrow> nat" where
  "nunique col = length (remdups (List.map_filter id col))"

definition overall :: "clean_row list \<Rightarrow> overall_rec" where
  "overall df =
     \<lparr>total_employees = count_sum df,
      total_agencies = nunique (map (key_at 0) (agency_data df)),
      total_states = length (state_data df)\<rparr>"

record dashboard_data =
  d_overall :: overall_rec
  agencies :: "agg list"
  allAgencies :: "agg list"
  states :: "agg list"
  payDistribution :: "sum_row list"
  education :: "agg list"
  appointments :: "agg list"
  ageBrackets :: "agg list"
  stem :: "agg list"
  supervisory :: "agg list"

definition dashboard :: "clean_row list \<Rightarrow> dashboard_data" where
  "dashboard df =
     \<lparr>d_overall = overall df, agencies = take 50 (agency_data df),
      allAgencies = agency_data df, states = state_data df, payDistribution = pay_dist df,
      education = edu_data df, appointments = appt_data df, ageBrackets = age_data df,
      stem = stem_data df, supervisory = super_data df\<rparr>"

subsection \<open>The tables of \<open>process_data.py\<close>\<close>

text \<open>
  No \<open>groupby\<close> of this script passes \<open>observed\<close>, so each runs with the library's
  default, which is \<open>False\<close> in pandas before 3.0 and \<open>True\<close> from 3.0 on. The default is
  the parameter \<open>obs\<close>. The script neither filters nor sorts its tables.
\<close>

definition agency_export :: "bool \<Rightarrow> full_row list \<Rightarrow> agg list" where
  "agency_export obs df = groupby_agg obs [\<lambda>r. agency (src r), \<lambda>r. agency_code (src r)] df"

definition state_export :: "bool \<Rightarrow> full_row list \<Rightarrow> agg list" where
  "state_export obs df =
     groupby_agg obs
       [\<lambda>r. duty_station_state (src r), \<lambda>r. duty_station_state_abbreviation (src r)] df"

definition occupation_export :: "bool \<Rightarrow> full_row list \<Rightarrow> agg list" where
  "occupation_export obs df =
     groupby_agg obs
       [\<lambda>r. occupational_group (src r), \<lambda>r. occupational_series (src r),
        \<lambda>r. stem_occupation (src r)] df"

definition demographics_export :: "bool \<Rightarrow> full_row list \<Rightarrow> agg list" where
  "demographics_export obs df =
     groupby_agg obs
       [\<lambda>r. age_bracket (src r), \<lambda>r. education_level (src r),
        \<lambda>r. Some (tenure_category r)] df"

definition pay_distribution :: "bool \<Rightarrow> full_row list \<Rightarrow> sum_row list" where
  "pay_distribution obs df =
     groupby_sum obs [\<lambda>r. Some (pay_band_col r), \<lambda>r. agency (src r)] df"

definition appointment_export :: "bool \<Rightarrow> full_row list \<Rightarrow> agg list" where
  "appointment_export obs df =
     groupby_agg obs [\<lambda>r. appointment_type (src r), \<lambda>r. agency (src r)] df"

text \<open>
  The integer entries of \<open>overall_stats\<close>. \<open>iloc[0]\<close> on a column without rows
  raises \<open>IndexError\<close>; it is the last entry of the dictionary, and the entries evaluated
  before it raise nothing (the floating-point ones are NaN on an empty table).
\<close>

record overall_stats_rec = overall_rec +
  snapshot_date :: int

definition iloc0 :: "'a list \<Rightarrow> py_error + 'a" where
  "iloc0 col = (case col of [] \<Rightarrow> Inl IndexError | x # _ \<Rightarrow> Inr x)"

definition overall_stats :: "full_row list \<Rightarrow> py_error + overall_stats_rec" where
  "overall_stats df =
     (case iloc0 (map (\<lambda>r. snapshot_yyyymm (src r)) df) of
        Inl e \<Rightarrow> Inl e
      | Inr s \<Rightarrow>
          Inr \<lparr>total_employees = count_sum df,
               total_agencies = nunique (map (\<lambda>r. agency (src r)) df),
               total_states = nunique (map (\<lambda>r. duty_station_state (src r)) df),
               snapshot_date = s\<rparr>)"

subsection \<open>Files and runs\<close>

text \<open>
  The part of the file system the scripts touch: regular files with their contents, and
  directories. The snapshot is held as the table of rows \<open>read_csv\<close> makes of it; a file
  that \<open>read_csv\<close> cannot turn into such a table is any other content. An output file is
  held as the value that \<open>json.dump\<close> or \<open>to_csv\<close> serialises, the serialiser being a
  function of that value. Opening with mode \<open>'w'\<close>, the default of \<open>to_csv\<close> too, replaces
  the whole content.
\<close>

datatype fdata =
    Source "row list"
  | Data_js dashboard_data
  | Csv_agg "agg list"
  | Csv_sum "sum_row list"
  | Stats_json overall_stats_rec

record world =
  files :: "string \<Rightarrow> fdata option"
  dirs :: "string set"

definition RAW_DATA_PATH :: string where
  "RAW_DATA_PATH = ''/mnt/c/Users/chipp/Downloads/employment_202511_1_2026-01-21.csv''"

definition OUTPUT_PATH :: string where
  "OUTPUT_PATH = ''/mnt/c/Users/chipp/federal-employment-analysis/dashboard''"

text \<open>
  \<open>Path(__file__).parent.parent / 'data' / 'processed'\<close>; \<open>base\<close> is the directory
  above the one that holds the script.
\<close>

definition DATA_PATH :: "string \<Rightarrow> string" where
  "DATA_PATH base = base @ ''/data''"

definition PROCESSED_DATA_PATH :: "string \<Rightarrow> string" where
  "PROCESSED_DATA_PATH base = base @ ''/data/processed''"

definition path_join :: "string \<Rightarrow> string \<Rightarrow> string" where
  "path_join dir name = dir @ ''/'' @ name"

definition exists :: "world \<Rightarrow> string \<Rightarrow> bool" where
  "exists w p = (files w p \<noteq> None \<or> p \<in> dirs w)"

definition read_csv :: "world \<Rightarrow> string \<Rightarrow> py_error + row list" where
  "read_csv w p =
     (case files w p of
        Some (Source rows) \<Rightarrow> Inr rows
      | Some _ \<Rightarrow> Inl ParserError
      | None \<Rightarrow> if p \<in> dirs w then Inl (IsADirectoryError p) else Inl (FileNotFoundError p))"

text \<open>
  \<open>mkdir(parents=True, exist_ok=True)\<close> on \<open>p\<close>, whose one possibly missing parent is
  \<open>parent\<close>: an existing directory is accepted, a regular file in the way is an error.
\<close>

definition mkdir_parents :: "string \<Rightarrow> string \<Rightarrow> world \<Rightarrow> py_error + world" where
  "mkdir_parents parent p w =
     (if files w p \<noteq> None then Inl (FileExistsError p)
      else if files w parent \<noteq> None then Inl (NotADirectoryError parent)
      else Inr (w\<lparr>dirs := insert p (insert parent (dirs w))\<rparr>))"

definition open_w :: "world \<Rightarrow> string \<Rightarrow> string \<Rightarrow> fdata \<Rightarrow> py_error + world" where
  "open_w w dir name content =
     (if path_join dir name \<in> dirs w then Inl (IsADirectoryError (path_join dir name))
      else if dir \<in> dirs w
        then Inr (w\<lparr>files := (files w)(path_join dir name \<mapsto> content)\<rparr>)
        else Inl (FileNotFoundError (path_join dir name)))"

text \<open>
  How a run ends: it reaches the end of the script, it calls \<open>sys.exit\<close>, or an exception
  nobody catches ends it, which the interpreter reports with a traceback and the exit
  status 1.
\<close>

datatype outcome = Finished | Sys_exit nat | Uncaught py_error

fun exit_status :: "outcome \<Rightarrow> nat" where
  "exit_status Finished = 0"
| "exit_status (Sys_exit n) = n"
| "exit_status (Uncaught e) = 1"

text \<open>
  The result of a run: the file system it leaves, the error lines it printed itself (the
  progress lines are left out), and how it ended.
\<close>

record result =
  final :: world
  printed :: "string list"
  outcome :: outcome

text \<open>
  A sequence of export steps into one directory: each computes its content, which may
  raise, and writes it; the first exception ends the run and leaves what was written before.
\<close>

fun write_all :: "string \<Rightarrow> (string \<times> (py_error + fdata)) list \<Rightarrow> world \<Rightarrow> result" where
  "write_all dir [] w = \<lparr>final = w, printed = [], outcome = Finished\<rparr>"
| "write_all dir ((name, content) # rest) w =
     (case content of
        Inl e \<Rightarrow> \<lparr>final = w, printed = [], outcome = Uncaught e\<rparr>
      | Inr c \<Rightarrow>
          (case open_w w dir name c of
             Inl e \<Rightarrow> \<lparr>final = w, printed = [], outcome = Uncaught e\<rparr>
           | Inr w' \<Rightarrow> write_all dir rest w'))"

text \<open>\<open>create_dashboard_data.py\<close> from top to bottom.\<close>

definition run_dashboard :: "world \<Rightarrow> result" where
  "run_dashboard w =
     (case read_csv w RAW_DATA_PATH of
        Inl e \<Rightarrow> \<lparr>final = w, printed = [], outcome = Uncaught e\<rparr>
      | Inr rows \<Rightarrow>
          (case clean_dashboard rows of
             Inl e \<Rightarrow> \<lparr>final = w, printed = [], outcome = Uncaught e\<rparr>
           | Inr df \<Rightarrow> write_all OUTPUT_PATH [(''data.js'', Inr (Data_js (dashboard df)))] w))"

text \<open>
  The export steps of \<open>process_data.py\<close>, lines 104 to 178, in the order of the script;
  \<open>obs\<close> is the library's default for \<open>observed\<close>.
\<close>

definition exports :: "bool \<Rightarrow> full_row list \<Rightarrow> (string \<times> (py_error + fdata)) list" where
  "exports obs df =
     [(''agency_summary.csv'', Inr (Csv_agg (agency_export obs df))),
      (''state_summary.csv'', Inr (Csv_agg (state_export obs df))),
      (''occupation_summary.csv'', Inr (Csv_agg (occupation_export obs df))),
      (''demographics_summary.csv'', Inr (Csv_agg (demographics_export obs df))),
      (''pay_distribution.csv'', Inr (Csv_sum (pay_distribution obs df))),
      (''appointment_summary.csv'', Inr (Csv_agg (appointment_export obs df))),
      (''overall_stats.json'', map_sum id Stats_json (overall_stats df))]"

text \<open>
  \<open>process_data.py\<close> from top to bottom: the output directory is made first, then the
  input is looked for.
\<close>

definition run_process :: "string \<Rightarrow> bool \<Rightarrow> world \<Rightarrow> result" where
  "run_process base obs w =
     (case mkdir_parents (DATA_PATH base) (PROCESSED_DATA_PATH base) w of
        Inl e \<Rightarrow> \<lparr>final = w, printed = [], outcome = Uncaught e\<rparr>
      | Inr w0 \<Rightarrow>
          if exists w0 RAW_DATA_PATH
          then
            (case read_csv w0 RAW_DATA_PATH of
               Inl e \<Rightarrow> \<lparr>final = w0, printed = [], outcome = Uncaught e\<rparr>
             | Inr rows \<Rightarrow>
                 (case clean_process rows of
                    Inl e \<Rightarrow> \<lparr>final = w0, printed = [], outcome = Uncaught e\<rparr>
                  | Inr df \<Rightarrow> write_all (PROCESSED_DATA_PATH base) (exports obs df) w0))
          else
            \<lparr>final = w0,
             printed = [''ERROR: Raw data file not found at '' @ RAW_DATA_PATH],
             outcome = Sys_exit 1\<rparr>)"

subsection \<open>Example input\<close>

text \<open>
  A source row for the examples: a bucket of agency "AGENCY A" in the snapshot of November
  2025, with a given count and raw pay cell and every other categorical cell missing.
\<close>

definition scenario_row :: "int \<Rightarrow> string option \<Rightarrow> row" where
  "scenario_row n pay =
     \<lparr>age_bracket = None, agency = Some ''AGENCY A'', agency_code = None,
      annualized_adjusted_basic_pay = pay, appointment_type = None, count = n,
      duty_station_state = None, duty_station_state_abbreviation = None,
      education_level = None, length_of_service_years = None, occupational_group = None,
      occupational_series = None, snapshot_yyyymm = 202511, stem_occupation = None,
      supervisory_status = None\<rparr>"

section \<open>Pay bucketing\<close>

lemma pay_band_Some:
  "pay_band (Some p) =
     (if p < 50000 then ''Under $50K''
      else if p < 75000 then ''$50K-$75K''
      else if p < 100000 then ''$75K-$100K''
      else if p < 125000 then ''$100K-$125K''
      else if p < 150000 then ''$125K-$150K''
      else if p < 200000 then ''$150K-$200K''
      else ''$200K+'')"
  by (simp add: pay_band_def)

lemma categorize_pay_Some:
  "categorize_pay (Some p) =
     (if p < 40000 then ''< $40K''
      else if p < 60000 then ''$40K-$60K''
      else if p < 80000 then ''$60K-$80K''
      else if p < 100000 then ''$80K-$100K''
      else if p < 150000 then ''$100K-$150K''
      else if p < 200000 then ''$150K-$200K''
      else ''$200K+'')"
  by (simp add: categorize_pay_def)

text \<open>
  C2. Every pay value, the missing one included, falls in exactly one band of the fixed list:
  the bands are pairwise different, the missing value is the only one sent to the
  redacted bucket, and each numeric band is exactly a half-open interval between consecutive
  thresholds, so the intervals cover the numbers with no gap and no overlap. 49999.99 is
  "Under $50K" and 50000.00 is "$50K-$75K". The same holds for the full export's
  \<open>categorize_pay\<close> at its own thresholds.
\<close>

theorem pay_band_partition:
  "pay_band pay \<in> set band_order \<and> distinct band_order
   \<and> (pay_band pay = ''Redacted'') = (pay = None)
   \<and> (pay_band (Some p) = ''Under $50K'') = (p < 50000)
   \<and> (pay_band (Some p) = ''$50K-$75K'') = (50000 \<le> p \<and> p < 75000)
   \<and> (pay_band (Some p) = ''$75K-$100K'') = (75000 \<le> p \<and> p < 100000)
   \<and> (pay_band (Some p) = ''$100K-$125K'') = (100000 \<le> p \<and> p < 125000)
   \<and> (pay_band (Some p) = ''$125K-$150K'') = (125000 \<le> p \<and> p < 150000)
   \<and> (pay_band (Some p) = ''$150K-$200K'') = (150000 \<le> p \<and> p < 200000)
   \<and> (pay_band (Some p) = ''$200K+'') = (200000 \<le> p)
   \<and> pay_band (Some (4999999 / 100)) = ''Under $50K''
   \<and> pay_band (Some 50000) = ''$50K-$75K''
   \<and> categorize_pay pay \<in> set pay_categories \<and> distinct pay_categories
   \<and> (categorize_pay pay = ''Unknown/Redacted'') = (pay = None)
   \<and> (categorize_pay (Some p) = ''< $40K'') = (p < 40000)
   \<and> (categorize_pay (Some p) = ''$40K-$60K'') = (40000 \<le> p \<and> p < 60000)
   \<and> (categorize_pay (Some p) = ''$60K-$80K'') = (60000 \<le> p \<and> p < 80000)
   \<and> (categorize_pay (Some p) = ''$80K-$100K'') = (80000 \<le> p \<and> p < 100000)
   \<and> (categorize_pay (Some p) = ''$100K-$150K'') = (100000 \<le> p \<and> p < 150000)
   \<and> (categorize_pay (Some p) = ''$150K-$200K'') = (150000 \<le> p \<and> p < 200000)
   \<and> (categorize_pay (Some p) = ''$200K+'') = (200000 \<le> p)"
proof -
  have in_order: "pay_band pay \<in> set band_order"
    by (cases pay) (simp_all add: pay_band_def band_order_def)
  have dist: "distinct band_order"
    by (simp add: band_order_def)
  have red: "(pay_band pay = ''Redacted'') = (pay = None)"
    by (cases pay) (simp_all add: pay_band_def)
  have in_cats: "categorize_pay pay \<in> set pay_categories"
    by (cases pay) (simp_all add: categorize_pay_def pay_categories_def)
  have dist': "distinct pay_categories"
    by (simp add: pay_categories_def)
  have red': "(categorize_pay pay = ''Unknown/Redacted'') = (pay = None)"
    by (cases pay) (simp_all add: categorize_pay_def)
  have b: "(pay_band (Some p) = ''Under $50K'') = (p < 50000)"
    "(pay_band (Some p) = ''$50K-$75K'') = (50000 \<le> p \<and> p < 75000)"
    "(pay_band (Some p) = ''$75K-$100K'') = (75000 \<le> p \<and> p < 100000)"
    "(pay_band (Some p) = ''$100K-$125K'') = (100000 \<le> p \<and> p < 125000)"
    "(pay_band (Some p) = ''$125K-$150K'') = (125000 \<le> p \<and> p < 150000)"
    "(pay_band (Some p) = ''$150K-$200K'') = (150000 \<le> p \<and> p < 200000)"
    "(pay_band (Some p) = ''$200K+'') = (200000 \<le> p)"
    unfolding pay_band_Some by auto
  have c: "(categorize_pay (Some p) = ''< $40K'') = (p < 40000)"
    "(categorize_pay (Some p) = ''$40K-$60K'') = (40000 \<le> p \<and> p < 60000)"
    "(categorize_pay (Some p) = ''$60K-$80K'') = (60000 \<le> p \<and> p < 80000)"
    "(categorize_pay (Some p) = ''$80K-$100K'') = (80000 \<le> p \<and> p < 100000)"
    "(categorize_pay (Some p) = ''$100K-$150K'') = (100000 \<le> p \<and> p < 150000)"
    "(categorize_pay (Some p) = ''$150K-$200K'') = (150000 \<le> p \<and> p < 200000)"
    "(categorize_pay (Some p) = ''$200K+'') = (200000 \<le> p)"
    unfolding categorize_pay_Some by auto
  have ex: "pay_band (Some (4999999 / 100)) = ''Under $50K''"
    "pay_band (Some 50000) = ''$50K-$75K''"
    by (simp_all add: pay_band_Some)
  from in_order dist red b ex in_cats dist' red' c show ?thesis
    by blast
qed

section \<open>Pay parsing\<close>


lemma to_numeric_coerce: "\<exists>v. to_numeric Coerce cell = Inr v"
  by (simp add: to_numeric_def split: option.splits)



lemma float_literal_50000: "float_literal ''50000'' = Some 50000"
  by (simp add: float_literal_def unsigned_literal_def is_digit_def digits_value_def)


section \<open>Aggregate tables\<close>

lemma key_groupby_agg: "map key (groupby_agg obs keys df) = group_index obs keys df"
  by (simp add: groupby_agg_def comp_def)

lemma key_groupby_sum: "map key (groupby_sum obs keys df) = group_index obs keys df"
  by (simp add: groupby_sum_def comp_def)

lemma employees_groupby_agg:
  "map employees (groupby_agg obs keys df)
     = map (\<lambda>k. count_sum (group_rows keys df k)) (group_index obs keys df)"
  by (simp add: groupby_agg_def comp_def)

lemma employees_groupby_sum:
  "map employees (groupby_sum obs keys df)
     = map (\<lambda>k. count_sum (group_rows keys df k)) (group_index obs keys df)"
  by (simp add: groupby_sum_def comp_def)

lemma set_by_employees_desc: "set (by_employees_desc t) = set t"
  by (simp add: by_employees_desc_def)

lemma set_by_rank: "set (by_rank order t) = set t"
  by (simp add: by_rank_def)

lemma set_by_rank_categorical: "set (by_rank_categorical order cats t) = set t"
  by (simp add: by_rank_categorical_def set_by_rank)

lemma set_by_avg_pay_desc: "set (by_avg_pay_desc t) = set t"
  by (simp add: by_avg_pay_desc_def)

lemma positive_employees: "a \<in> set (positive t) \<Longrightarrow> 0 < employees a"
  by (simp add: positive_def)


lemma key_export:
  "map key (agency_export obs df)
     = group_index obs [\<lambda>r. agency (src r), \<lambda>r. agency_code (src r)] df"
  "map key (state_export obs df)
     = group_index obs
         [\<lambda>r. duty_station_state (src r), \<lambda>r. duty_station_state_abbreviation (src r)] df"
  "map key (occupation_export obs df)
     = group_index obs
         [\<lambda>r. occupational_group (src r), \<lambda>r. occupational_series (src r),
          \<lambda>r. stem_occupation (src r)] df"
  "map key (demographics_export obs df)
     = group_index obs
         [\<lambda>r. age_bracket (src r), \<lambda>r. education_level (src r),
          \<lambda>r. Some (tenure_category r)] df"
  "map key (pay_distribution obs df)
     = group_index obs [\<lambda>r. Some (pay_band_col r), \<lambda>r. agency (src r)] df"
  "map key (appointment_export obs df)
     = group_index obs [\<lambda>r. appointment_type (src r), \<lambda>r. agency (src r)] df"
  by (simp_all add: agency_export_def state_export_def occupation_export_def
      demographics_export_def pay_distribution_def appointment_export_def
      key_groupby_agg key_groupby_sum)

text \<open>
  C1, as amended. In the dashboard script every row of the agency, state, education,
  appointment, age-bracket, STEM and supervisory tables has \<open>employees > 0\<close>. The full
  export applies no such filter: each of its tables has one row for every group of its index,
  whatever the group's count sum.
\<close>

theorem dashboard_rows_positive:
  "(a \<in> set (agency_data df) \<union> set (state_data df) \<union> set (edu_data df)
        \<union> set (appt_data df) \<union> set (age_data df) \<union> set (stem_data df)
        \<union> set (super_data df)
      \<longrightarrow> 0 < employees a)
   \<and> map key (agency_export obs ef)
       = group_index obs [\<lambda>r. agency (src r), \<lambda>r. agency_code (src r)] ef
   \<and> map key (state_export obs ef)
       = group_index obs
           [\<lambda>r. duty_station_state (src r), \<lambda>r. duty_station_state_abbreviation (src r)] ef
   \<and> map key (occupation_export obs ef)
       = group_index obs
           [\<lambda>r. occupational_group (src r), \<lambda>r. occupational_series (src r),
            \<lambda>r. stem_occupation (src r)] ef
   \<and> map key (demographics_export obs ef)
       = group_index obs
           [\<lambda>r. age_bracket (src r), \<lambda>r. education_level (src r),
            \<lambda>r. Some (tenure_category r)] ef
   \<and> map key (pay_distribution obs ef)
       = group_index obs [\<lambda>r. Some (pay_band_col r), \<lambda>r. agency (src r)] ef
   \<and> map key (appointment_export obs ef)
       = group_index obs [\<lambda>r. appointment_type (src r), \<lambda>r. agency (src r)] ef"
proof -
  have "0 < employees a"
    if "a \<in> set (agency_data df) \<union> set (state_data df) \<union> set (edu_data df)
        \<union> set (appt_data df) \<union> set (age_data df) \<union> set (stem_data df)
        \<union> set (super_data df)"
    using that
    by (auto simp: agency_data_def state_data_def edu_data_def appt_data_def age_data_def
        stem_data_def super_data_def set_by_employees_desc set_by_rank_categorical
        set_by_avg_pay_desc dest: positive_employees)
  then show ?thesis
    by (simp add: key_export)
qed

lemma mean_Nil: "mean [None] = None"
  by (simp add: mean_def List.map_filter_simps)

theorem dashboard_rows_positive_witness:
  "agency_data [\<lparr>src = scenario_row 10 None, pay_numeric = None, pay_band_col = ''Redacted''\<rparr>]
     = [\<lparr>key = [''AGENCY A''], employees = 10, avg_pay = None\<rparr>]
   \<and> 0 < employees \<lparr>key = [''AGENCY A''], employees = 10, avg_pay = None\<rparr>"
  using dashboard_rows_positive
    [of "\<lparr>key = [''AGENCY A''], employees = 10, avg_pay = None\<rparr>"
        "[\<lparr>src = scenario_row 10 None, pay_numeric = None, pay_band_col = ''Redacted''\<rparr>]"]
  by (simp add: agency_data_def by_employees_desc_def positive_def groupby_agg_def
      group_index_def group_key_def group_rows_def count_sum_def mean_Nil round2_def
      List.map_filter_simps scenario_row_def)

text \<open>
  As stated, C1 fails on the full export: a single source row with count 0 gives an agency
  table with one row whose count sum is 0, under either default of \<open>observed\<close>. It
  fails as well on the pay distribution of the dashboard script, the one table of that script
  that is not filtered: the same row gives a band with 0 employees.
\<close>

theorem export_zero_row_counterexample:
  "clean_process [(scenario_row 0 None)\<lparr>agency_code := Some ''AA''\<rparr>]
     = Inr [\<lparr>src = (scenario_row 0 None)\<lparr>agency_code := Some ''AA''\<rparr>, pay_numeric = None,
             pay_band_col = ''Unknown/Redacted'', is_redacted = False,
             tenure_category = ''Unknown''\<rparr>]
   \<and> agency_export True
        [\<lparr>src = (scenario_row 0 None)\<lparr>agency_code := Some ''AA''\<rparr>, pay_numeric = None,
          pay_band_col = ''Unknown/Redacted'', is_redacted = False,
          tenure_category = ''Unknown''\<rparr>]
     = [\<lparr>key = [''AGENCY A'', ''AA''], employees = 0, avg_pay = None\<rparr>]
   \<and> agency_export False
        [\<lparr>src = (scenario_row 0 None)\<lparr>agency_code := Some ''AA''\<rparr>, pay_numeric = None,
          pay_band_col = ''Unknown/Redacted'', is_redacted = False,
          tenure_category = ''Unknown''\<rparr>]
     = [\<lparr>key = [''AGENCY A'', ''AA''], employees = 0, avg_pay = None\<rparr>]
   \<and> pay_dist [\<lparr>src = scenario_row 0 None, pay_numeric = None, pay_band_col = ''Redacted''\<rparr>]
     = [\<lparr>key = [''Redacted''], employees = 0\<rparr>]"
  by (simp add: clean_process_def derive_process_def to_numeric_def categorize_pay_def
      categorize_tenure_def agency_export_def groupby_agg_def
      group_index_def group_key_def group_rows_def count_sum_def mean_Nil round2_def
      categories_def List.map_filter_simps scenario_row_def pay_dist_def by_rank_def
      groupby_sum_def)

section \<open>Group sums\<close>

lemma set_map_filter_iff: "k \<in> set (List.map_filter f xs) \<longleftrightarrow> (\<exists>x\<in>set xs. f x = Some k)"
  by (induction xs) (auto split: option.splits)

lemma those_Some_all2: "those xs = Some ys \<Longrightarrow> list_all2 (\<lambda>x y. x = Some y) xs ys"
  by (induction xs arbitrary: ys) (auto split: option.splits)

lemma group_key_in_index:
  assumes "r \<in> set df" and "group_key keys r = Some k"
  shows "k \<in> set (group_index obs keys df)"
proof (cases obs)
  case True
  with assms show ?thesis
    by (auto simp: group_index_def set_map_filter_iff)
next
  case False
  from assms(2) have "list_all2 (\<lambda>x y. x = Some y) (map (\<lambda>c. c r) keys) k"
    unfolding group_key_def by (rule those_Some_all2)
  then have "list_all2 (\<lambda>c y. c r = Some y) keys k"
    by (simp add: list_all2_map1)
  then have "list_all2 (\<lambda>y c. y \<in> set (categories c df)) k keys"
    using assms(1)
    by (auto simp: list_all2_conv_all_nth categories_def set_map_filter_iff)
  then have "list_all2 (\<lambda>y ys. y \<in> set ys) k (map (\<lambda>c. categories c df) keys)"
    by (simp add: list_all2_map2)
  with False show ?thesis
    by (simp add: group_index_def product_lists_set)
qed

lemma distinct_group_index: "distinct (group_index obs keys df)"
  by (auto simp: group_index_def categories_def intro!: distinct_product_lists)

lemma sum_list_if_distinct:
  "distinct ks \<Longrightarrow>
     (\<Sum>k\<leftarrow>ks. if x = Some k then (c::int) else 0) = (if \<exists>k\<in>set ks. x = Some k then c else 0)"
  by (induction ks) auto

lemma count_sum_Cons: "count_sum (r # g) = count (src r) + count_sum g"
  by (simp add: count_sum_def)

lemma sum_groups:
  assumes "distinct ks"
  shows "(\<Sum>k\<leftarrow>ks. count_sum (group_rows keys df k))
           = count_sum (filter (\<lambda>r. \<exists>k\<in>set ks. group_key keys r = Some k) df)"
proof (induction df)
  case Nil
  show ?case by (simp add: group_rows_def count_sum_def)
next
  case (Cons r rs)
  have step: "count_sum (group_rows keys (r # rs) k)
        = (if group_key keys r = Some k then count (src r) else 0)
          + count_sum (group_rows keys rs k)" for k
    by (simp add: group_rows_def count_sum_Cons)
  have "(\<Sum>k\<leftarrow>ks. count_sum (group_rows keys (r # rs) k))
        = (\<Sum>k\<leftarrow>ks. if group_key keys r = Some k then count (src r) else 0)
          + (\<Sum>k\<leftarrow>ks. count_sum (group_rows keys rs k))"
    by (simp add: step sum_list_addf)
  also have "\<dots> = (if \<exists>k\<in>set ks. group_key keys r = Some k then count (src r) else 0)
          + count_sum (filter (\<lambda>r. \<exists>k\<in>set ks. group_key keys r = Some k) rs)"
    by (simp only: sum_list_if_distinct [OF assms] Cons.IH)
  also have "\<dots> = count_sum (filter (\<lambda>r. \<exists>k\<in>set ks. group_key keys r = Some k) (r # rs))"
    by (simp add: count_sum_Cons)
  finally show ?case .
qed

lemma sum_selected_groups:
  "(\<Sum>k\<leftarrow>filter P (group_index obs keys df). count_sum (group_rows keys df k))
     = count_sum (filter (\<lambda>r. \<exists>k. group_key keys r = Some k \<and> P k) df)"
proof -
  have "(\<Sum>k\<leftarrow>filter P (group_index obs keys df). count_sum (group_rows keys df k))
      = count_sum (filter (\<lambda>r. \<exists>k\<in>set (filter P (group_index obs keys df)).
                                  group_key keys r = Some k) df)"
    by (rule sum_groups) (simp add: distinct_group_index)
  also have "filter (\<lambda>r. \<exists>k\<in>set (filter P (group_index obs keys df)).
                                  group_key keys r = Some k) df
      = filter (\<lambda>r. \<exists>k. group_key keys r = Some k \<and> P k) df"
    by (rule filter_cong) (auto dest: group_key_in_index)
  finally show ?thesis .
qed

lemma sum_all_groups:
  "(\<Sum>k\<leftarrow>group_index obs keys df. count_sum (group_rows keys df k))
     = count_sum (filter (\<lambda>r. group_key keys r \<noteq> None) df)"
  using sum_selected_groups [where P = "\<lambda>k. True" and obs = obs and keys = keys and df = df]
  by simp

lemma sum_list_insort_key:
  "sum_list (map f (insort_key g x xs)) = (f x :: int) + sum_list (map f xs)"
  by (induction xs) auto

lemma sum_list_sort_key: "sum_list (map f (sort_key g xs)) = (sum_list (map f xs) :: int)"
  by (induction xs) (auto simp: sum_list_insort_key)

lemma sum_positive:
  "(\<And>x. x \<in> set xs \<Longrightarrow> 0 \<le> f x)
     \<Longrightarrow> sum_list (map f (filter (\<lambda>x. 0 < f x) xs)) = (sum_list (map f xs) :: int)"
  by (induction xs) (auto simp: order.order_iff_strict)

lemma count_sum_nonneg: "(\<And>r. r \<in> set g \<Longrightarrow> 0 \<le> count (src r)) \<Longrightarrow> 0 \<le> count_sum g"
  unfolding count_sum_def by (induction g) auto


lemma sum_groupby_agg:
  "sum_list (map employees (groupby_agg obs keys df))
     = count_sum (filter (\<lambda>r. group_key keys r \<noteq> None) df)"
  by (simp only: employees_groupby_agg sum_all_groups)

lemma sum_groupby_sum:
  "sum_list (map employees (groupby_sum obs keys df))
     = count_sum (filter (\<lambda>r. group_key keys r \<noteq> None) df)"
  by (simp only: employees_groupby_sum sum_all_groups)

lemma groupby_agg_nonneg:
  assumes "\<forall>r\<in>set df. 0 \<le> count (src r)" and "a \<in> set (groupby_agg obs keys df)"
  shows "0 \<le> employees a"
proof -
  from assms(2) obtain k where "employees a = count_sum (group_rows keys df k)"
    by (auto simp: groupby_agg_def)
  moreover have "0 \<le> count_sum (group_rows keys df k)"
    using assms(1) by (intro count_sum_nonneg) (simp add: group_rows_def)
  ultimately show ?thesis by simp
qed

lemma sum_positive_groupby_agg:
  assumes "\<forall>r\<in>set df. 0 \<le> count (src r)"
  shows "sum_list (map employees (positive (groupby_agg obs keys df)))
     = count_sum (filter (\<lambda>r. group_key keys r \<noteq> None) df)"
proof -
  have "sum_list (map employees (positive (groupby_agg obs keys df)))
      = sum_list (map employees (groupby_agg obs keys df))"
    unfolding positive_def using assms by (intro sum_positive) (rule groupby_agg_nonneg)
  then show ?thesis
    by (simp only: sum_groupby_agg)
qed

lemma sum_by_employees_desc: "sum_list (map employees (by_employees_desc t)) = sum_list (map employees t)"
  by (simp add: by_employees_desc_def sum_list_sort_key)

lemma sum_by_rank: "sum_list (map employees (by_rank order t)) = sum_list (map employees t)"
  by (simp add: by_rank_def sum_list_sort_key)

lemma sum_by_rank_categorical:
  "sum_list (map employees (by_rank_categorical order cats t)) = sum_list (map employees t)"
  by (simp add: by_rank_categorical_def sum_by_rank sum_list_sort_key)

lemma sum_by_avg_pay_desc: "sum_list (map employees (by_avg_pay_desc t)) = sum_list (map employees t)"
  by (simp add: by_avg_pay_desc_def sum_list_sort_key)

lemma filter_groupby_agg:
  "map employees (filter (\<lambda>a. Q (key a)) (groupby_agg obs keys df))
     = map (\<lambda>k. count_sum (group_rows keys df k)) (filter Q (group_index obs keys df))"
  by (simp add: groupby_agg_def filter_map comp_def)

lemma group_key_pair:
  "group_key [c1, c2] r = Some k \<longleftrightarrow> (\<exists>x y. c1 r = Some x \<and> c2 r = Some y \<and> k = [x, y])"
  by (auto simp: group_key_def split: option.splits)

lemma sum_state_data:
  assumes "\<forall>r\<in>set df. 0 \<le> count (src r)"
  shows "sum_list (map employees (state_data df))
     = count_sum (filter (\<lambda>r. group_key [\<lambda>r. duty_station_state (src r),
                                           \<lambda>r. duty_station_state_abbreviation (src r)] r \<noteq> None
                              \<and> duty_station_state (src r) \<noteq> Some ''REDACTED'') df)"
    (is "_ = count_sum (filter (\<lambda>r. group_key ?keys r \<noteq> None \<and> _) df)")
proof -
  let ?t = "groupby_agg True ?keys df"
  let ?Q = "\<lambda>k. (if 0 < length k then Some (k ! 0) else None) \<noteq> Some ''REDACTED''"
  have "state_data df
      = by_employees_desc (positive (filter (\<lambda>a. ?Q (key a)) ?t))"
    by (simp add: state_data_def by_employees_desc_def positive_def key_at_def filter_sort
        conj_commute)
  then have "sum_list (map employees (state_data df))
      = sum_list (map employees (positive (filter (\<lambda>a. ?Q (key a)) ?t)))"
    by (simp only: sum_by_employees_desc)
  also have "\<dots> = sum_list (map employees (filter (\<lambda>a. ?Q (key a)) ?t))"
    unfolding positive_def using assms
    by (intro sum_positive) (auto intro: groupby_agg_nonneg)
  also have "\<dots> = (\<Sum>k\<leftarrow>filter ?Q (group_index True ?keys df). count_sum (group_rows ?keys df k))"
    using filter_groupby_agg [where Q = ?Q and obs = True and keys = ?keys and df = df]
    by simp
  also have "\<dots> = count_sum (filter (\<lambda>r. \<exists>k. group_key ?keys r = Some k \<and> ?Q k) df)"
    by (rule sum_selected_groups)
  also have "(\<lambda>r::clean_row. \<exists>k. group_key ?keys r = Some k \<and> ?Q k)
      = (\<lambda>r. group_key ?keys r \<noteq> None \<and> duty_station_state (src r) \<noteq> Some ''REDACTED'')"
    by (auto simp: group_key_pair fun_eq_iff)
  finally show ?thesis .
qed


text \<open>
  C4, as amended. Provided no source row has a negative count, the \<open>employees\<close> of the
  dashboard's agency, education, appointment, age-bracket, STEM and supervisory tables add up
  to the sum of \<open>count\<close> over the rows whose grouping-key cells are all present; the states
  table adds up to the sum over the rows with both key cells present and a state other than
  \<open>REDACTED\<close>. The dashboard's pay-distribution table and all tables of the full export
  add up to the sum over the rows with present key cells, with no condition on the counts.
\<close>

theorem employees_sum:
  "((\<forall>r\<in>set df. 0 \<le> count (src r)) \<longrightarrow>
      sum_list (map employees (agency_data df))
        = count_sum (filter (\<lambda>r. group_key [\<lambda>r. agency (src r)] r \<noteq> None) df)
    \<and> sum_list (map employees (state_data df))
        = count_sum (filter (\<lambda>r. group_key [\<lambda>r. duty_station_state (src r),
                \<lambda>r. duty_station_state_abbreviation (src r)] r \<noteq> None
              \<and> duty_station_state (src r) \<noteq> Some ''REDACTED'') df)
    \<and> sum_list (map employees (edu_data df))
        = count_sum (filter (\<lambda>r. group_key [\<lambda>r. education_level (src r)] r \<noteq> None) df)
    \<and> sum_list (map employees (appt_data df))
        = count_sum (filter (\<lambda>r. group_key [\<lambda>r. appointment_type (src r)] r \<noteq> None) df)
    \<and> sum_list (map employees (age_data df))
        = count_sum (filter (\<lambda>r. group_key [\<lambda>r. age_bracket (src r)] r \<noteq> None) df)
    \<and> sum_list (map employees (stem_data df))
        = count_sum (filter (\<lambda>r. group_key [\<lambda>r. stem_occupation (src r)] r \<noteq> None) df)
    \<and> sum_list (map employees (super_data df))
        = count_sum (filter (\<lambda>r. group_key [\<lambda>r. supervisory_status (src r)] r \<noteq> None) df))
   \<and> sum_list (map employees (pay_dist df))
        = count_sum (filter (\<lambda>r. group_key [\<lambda>r. Some (pay_band_col r)] r \<noteq> None) df)
   \<and> sum_list (map employees (agency_export obs ef))
        = count_sum (filter (\<lambda>r. group_key [\<lambda>r. agency (src r),
                \<lambda>r. agency_code (src r)] r \<noteq> None) ef)
   \<and> sum_list (map employees (state_export obs ef))
        = count_sum (filter (\<lambda>r. group_key [\<lambda>r. duty_station_state (src r),
                \<lambda>r. duty_station_state_abbreviation (src r)] r \<noteq> None) ef)
   \<and> sum_list (map employees (occupation_export obs ef))
        = count_sum (filter (\<lambda>r. group_key [\<lambda>r. occupational_group (src r),
                \<lambda>r. occupational_series (src r), \<lambda>r. stem_occupation (src r)] r \<noteq> None) ef)
   \<and> sum_list (map employees (demographics_export obs ef))
        = count_sum (filter (\<lambda>r. group_key [\<lambda>r. age_bracket (src r),
                \<lambda>r. education_level (src r), \<lambda>r. Some (tenure_category r)] r \<noteq> None) ef)
   \<and> sum_list (map employees (pay_distribution obs ef))
        = count_sum (filter (\<lambda>r. group_key [\<lambda>r. Some (pay_band_col r),
                \<lambda>r. agency (src r)] r \<noteq> None) ef)
   \<and> sum_list (map employees (appointment_export obs ef))
        = count_sum (filter (\<lambda>r. group_key [\<lambda>r. appointment_type (src r),
                \<lambda>r. agency (src r)] r \<noteq> None) ef)"
proof -
  have dash: "sum_list (map employees (agency_data df))
        = count_sum (filter (\<lambda>r. group_key [\<lambda>r. agency (src r)] r \<noteq> None) df)"
    "sum_list (map employees (state_data df))
        = count_sum (filter (\<lambda>r. group_key [\<lambda>r. duty_station_state (src r),
                \<lambda>r. duty_station_state_abbreviation (src r)] r \<noteq> None
              \<and> duty_station_state (src r) \<noteq> Some ''REDACTED'') df)"
    "sum_list (map employees (edu_data df))
        = count_sum (filter (\<lambda>r. group_key [\<lambda>r. education_level (src r)] r \<noteq> None) df)"
    "sum_list (map employees (appt_data df))
        = count_sum (filter (\<lambda>r. group_key [\<lambda>r. appointment_type (src r)] r \<noteq> None) df)"
    "sum_list (map employees (age_data df))
        = count_sum (filter (\<lambda>r. group_key [\<lambda>r. age_bracket (src r)] r \<noteq> None) df)"
    "sum_list (map employees (stem_data df))
        = count_sum (filter (\<lambda>r. group_key [\<lambda>r. stem_occupation (src r)] r \<noteq> None) df)"
    "sum_list (map employees (super_data df))
        = count_sum (filter (\<lambda>r. group_key [\<lambda>r. supervisory_status (src r)] r \<noteq> None) df)"
    if nonneg: "\<forall>r\<in>set df. 0 \<le> count (src r)"
  proof -
    show "sum_list (map employees (state_data df))
        = count_sum (filter (\<lambda>r. group_key [\<lambda>r. duty_station_state (src r),
                \<lambda>r. duty_station_state_abbreviation (src r)] r \<noteq> None
              \<and> duty_station_state (src r) \<noteq> Some ''REDACTED'') df)"
      using nonneg by (rule sum_state_data)
  qed (simp_all only: agency_data_def edu_data_def appt_data_def age_data_def stem_data_def
      super_data_def sum_by_employees_desc sum_by_rank_categorical sum_by_avg_pay_desc
      sum_positive_groupby_agg [OF nonneg])
  have rest: "sum_list (map employees (pay_dist df))
        = count_sum (filter (\<lambda>r. group_key [\<lambda>r. Some (pay_band_col r)] r \<noteq> None) df)"
    "sum_list (map employees (agency_export obs ef))
        = count_sum (filter (\<lambda>r. group_key [\<lambda>r. agency (src r),
                \<lambda>r. agency_code (src r)] r \<noteq> None) ef)"
    "sum_list (map employees (state_export obs ef))
        = count_sum (filter (\<lambda>r. group_key [\<lambda>r. duty_station_state (src r),
                \<lambda>r. duty_station_state_abbreviation (src r)] r \<noteq> None) ef)"
    "sum_list (map employees (occupation_export obs ef))
        = count_sum (filter (\<lambda>r. group_key [\<lambda>r. occupational_group (src r),
                \<lambda>r. occupational_series (src r), \<lambda>r. stem_occupation (src r)] r \<noteq> None) ef)"
    "sum_list (map employees (demographics_export obs ef))
        = count_sum (filter (\<lambda>r. group_key [\<lambda>r. age_bracket (src r),
                \<lambda>r. education_level (src r), \<lambda>r. Some (tenure_category r)] r \<noteq> None) ef)"
    "sum_list (map employees (pay_distribution obs ef))
        = count_sum (filter (\<lambda>r. group_key [\<lambda>r. Some (pay_band_col r),
                \<lambda>r. agency (src r)] r \<noteq> None) ef)"
    "sum_list (map employees (appointment_export obs ef))
        = count_sum (filter (\<lambda>r. group_key [\<lambda>r. appointment_type (src r),
                \<lambda>r. agency (src r)] r \<noteq> None) ef)"
    by (simp_all only: pay_dist_def agency_export_def state_export_def occupation_export_def
        demographics_export_def pay_distribution_def appointment_export_def sum_by_rank
        sum_groupby_agg sum_groupby_sum)
  from dash rest show ?thesis
    by blast
qed

theorem employees_sum_witness:
  "0 \<le> count (src \<lparr>src = scenario_row 10 None, pay_numeric = None, pay_band_col = ''Redacted''\<rparr>)
   \<and> sum_list (map employees (agency_data
        [\<lparr>src = scenario_row 10 None, pay_numeric = None, pay_band_col = ''Redacted''\<rparr>])) = 10
   \<and> sum_list (map employees (state_data
        [\<lparr>src = scenario_row 10 None, pay_numeric = None, pay_band_col = ''Redacted''\<rparr>])) = 0"
  using employees_sum
    [of "[\<lparr>src = scenario_row 10 None, pay_numeric = None, pay_band_col = ''Redacted''\<rparr>]"]
  by (simp add: group_key_def count_sum_def scenario_row_def)

text \<open>
  As stated, C4 fails on the dashboard's states table, which drops the \<open>REDACTED\<close>
  group after aggregating: one row of 5 employees in state \<open>REDACTED\<close> has both key cells
  present, and the table is empty. It also fails on a filtered table when a group's counts
  sum to a negative number: the agency table drops a group of \<open>-5\<close>.
\<close>

theorem states_sum_counterexample:
  "sum_list (map employees (state_data
      [\<lparr>src = (scenario_row 5 None)\<lparr>duty_station_state := Some ''REDACTED'',
               duty_station_state_abbreviation := Some ''*''\<rparr>,
        pay_numeric = None, pay_band_col = ''Redacted''\<rparr>])) = 0
   \<and> count_sum (filter (\<lambda>r. group_key [\<lambda>r. duty_station_state (src r),
        \<lambda>r. duty_station_state_abbreviation (src r)] r \<noteq> None)
      [\<lparr>src = (scenario_row 5 None)\<lparr>duty_station_state := Some ''REDACTED'',
               duty_station_state_abbreviation := Some ''*''\<rparr>,
        pay_numeric = None, pay_band_col = ''Redacted''\<rparr>]) = 5
   \<and> sum_list (map employees (agency_data
      [\<lparr>src = scenario_row (- 5) None, pay_numeric = None, pay_band_col = ''Redacted''\<rparr>])) = 0
   \<and> count_sum (filter (\<lambda>r. group_key [\<lambda>r. agency (src r)] r \<noteq> None)
      [\<lparr>src = scenario_row (- 5) None, pay_numeric = None, pay_band_col = ''Redacted''\<rparr>]) = - 5"
  by (simp add: state_data_def agency_data_def by_employees_desc_def positive_def
      groupby_agg_def group_index_def group_key_def group_rows_def count_sum_def key_at_def
      scenario_row_def)

section \<open>Observed key combinations\<close>






section \<open>Row order\<close>

lemma sorted_by_employees_desc:
  "sorted_wrt (\<lambda>a b. employees b \<le> employees a) (by_employees_desc t)"
proof -
  have "sorted (map (\<lambda>a. - employees a) (by_employees_desc t))"
    unfolding by_employees_desc_def by (rule sorted_sort_key)
  then show ?thesis
    by (simp add: sorted_map)
qed

lemma sorted_by_rank: "sorted (map (\<lambda>a. rank order (key_at 0 a)) (by_rank order t))"
  unfolding by_rank_def by (rule sorted_sort_key)

lemma index_of_less: "x \<in> set xs \<Longrightarrow> index_of xs x < length xs"
  by (induction xs) auto

lemma rank_last:
  assumes "length order \<le> 99"
  shows "rank order x \<le> 99" and "(rank order x = 99) = (x \<notin> Some ` set order)"
proof -
  have "index_of order b < 99" if "b \<in> set order" for b
    using index_of_less [OF that] assms by simp
  then show "rank order x \<le> 99" and "(rank order x = 99) = (x \<notin> Some ` set order)"
    by (force simp: rank_def split: option.splits)+
qed

lemma sorted_concat_Cons:
  fixes xs :: "('a::linorder) list"
  assumes "sorted_wrt (<) ps"
  shows "sorted_wrt (<) xs \<Longrightarrow> sorted_wrt (<) (concat (map (\<lambda>x. map (Cons x) ps) xs))"
proof (induction xs)
  case Nil
  show ?case by simp
next
  case (Cons x xs)
  have "sorted_wrt (<) (map (Cons x) ps)"
    using assms by (simp add: sorted_wrt_map)
  moreover have "sorted_wrt (<) (concat (map (\<lambda>x. map (Cons x) ps) xs))"
    using Cons by simp
  moreover have "a < b"
    if "a \<in> set (map (Cons x) ps)" "b \<in> set (concat (map (\<lambda>x. map (Cons x) ps) xs))" for a b
    using that Cons.prems by auto
  ultimately show ?case
    by (simp add: sorted_wrt_append)
qed

lemma sorted_product_lists:
  fixes xss :: "('a::linorder) list list"
  shows "\<forall>xs\<in>set xss. sorted_wrt (<) xs \<Longrightarrow> sorted_wrt (<) (product_lists xss)"
  by (induction xss) (simp_all add: sorted_concat_Cons)

lemma sorted_group_index: "sorted_wrt (<) (group_index obs keys df)"
proof (cases obs)
  case True
  then show ?thesis
    by (simp add: group_index_def strict_sorted_iff)
next
  case False
  have "\<forall>xs\<in>set (map (\<lambda>c. categories c df) keys). sorted_wrt (<) xs"
    by (simp add: categories_def strict_sorted_iff)
  then have "sorted_wrt (<) (product_lists (map (\<lambda>c. categories c df) keys))"
    by (rule sorted_product_lists)
  with False show ?thesis
    by (simp add: group_index_def)
qed

text \<open>
  C6, as amended. In the dashboard script the agency, state, appointment and supervisory
  tables are in descending order of \<open>employees\<close>, and the pay-band table is in ascending
  order of the rank looked up in \<open>band_order\<close>, where a band outside the list has rank
  99, above every listed one. The tables of the full export are not sorted by count: their
  rows are in strictly ascending order of the group key.
\<close>

theorem table_order:
  "sorted_wrt (\<lambda>a b. employees b \<le> employees a) (agency_data df)
   \<and> sorted_wrt (\<lambda>a b. employees b \<le> employees a) (state_data df)
   \<and> sorted_wrt (\<lambda>a b. employees b \<le> employees a) (appt_data df)
   \<and> sorted_wrt (\<lambda>a b. employees b \<le> employees a) (super_data df)
   \<and> sorted (map (\<lambda>a. rank band_order (key_at 0 a)) (pay_dist df))
   \<and> rank band_order x \<le> 99 \<and> (rank band_order x = 99) = (x \<notin> Some ` set band_order)
   \<and> sorted_wrt (<) (map key (agency_export obs ef))
   \<and> sorted_wrt (<) (map key (state_export obs ef))
   \<and> sorted_wrt (<) (map key (occupation_export obs ef))
   \<and> sorted_wrt (<) (map key (demographics_export obs ef))
   \<and> sorted_wrt (<) (map key (pay_distribution obs ef))
   \<and> sorted_wrt (<) (map key (appointment_export obs ef))"
proof -
  have desc: "sorted_wrt (\<lambda>a b. employees b \<le> employees a) (agency_data df)"
    "sorted_wrt (\<lambda>a b. employees b \<le> employees a) (state_data df)"
    "sorted_wrt (\<lambda>a b. employees b \<le> employees a) (appt_data df)"
    "sorted_wrt (\<lambda>a b. employees b \<le> employees a) (super_data df)"
    by (simp_all add: agency_data_def state_data_def appt_data_def super_data_def
        sorted_by_employees_desc sorted_wrt_filter)
  have ranked: "sorted (map (\<lambda>a. rank band_order (key_at 0 a)) (pay_dist df))"
    by (simp only: pay_dist_def sorted_by_rank)
  have last: "rank band_order x \<le> 99" "(rank band_order x = 99) = (x \<notin> Some ` set band_order)"
    by (rule rank_last, simp add: band_order_def)+
  have export: "sorted_wrt (<) (map key (agency_export obs ef))"
    "sorted_wrt (<) (map key (state_export obs ef))"
    "sorted_wrt (<) (map key (occupation_export obs ef))"
    "sorted_wrt (<) (map key (demographics_export obs ef))"
    "sorted_wrt (<) (map key (pay_distribution obs ef))"
    "sorted_wrt (<) (map key (appointment_export obs ef))"
    by (simp_all only: key_export sorted_group_index)
  from desc ranked last export show ?thesis
    by blast
qed

text \<open>
  As stated, C6 fails on the full export: with one employee in "AGENCY A" and two in
  "AGENCY B", its agency table lists the smaller agency first, under either default of
  \<open>observed\<close>. It fails as well on the age table of the dashboard script. The \<open>order\<close>
  column of that table is made by \<open>apply\<close> on a categorical column, so that as long as the
  brackets have pairwise different ranks the sort goes by the position of the bracket among
  the categories, which are in alphabetical order: with two employees aged 20-24 and one
  under 20, "LESS THAN 20" comes last, although \<open>age_order\<close> ranks it first.
\<close>

theorem table_order_counterexample:
  "map employees (agency_export True
      [\<lparr>src = (scenario_row 1 None)\<lparr>agency_code := Some ''AA''\<rparr>, pay_numeric = None,
        pay_band_col = ''Unknown/Redacted'', is_redacted = False, tenure_category = ''Unknown''\<rparr>,
       \<lparr>src = (scenario_row 2 None)\<lparr>agency := Some ''AGENCY B'', agency_code := Some ''BB''\<rparr>,
        pay_numeric = None, pay_band_col = ''Unknown/Redacted'', is_redacted = False,
        tenure_category = ''Unknown''\<rparr>])
   = [1, 2]
   \<and> map employees (agency_export False
      [\<lparr>src = (scenario_row 1 None)\<lparr>agency_code := Some ''AA''\<rparr>, pay_numeric = None,
        pay_band_col = ''Unknown/Redacted'', is_redacted = False, tenure_category = ''Unknown''\<rparr>,
       \<lparr>src = (scenario_row 2 None)\<lparr>agency := Some ''AGENCY B'', agency_code := Some ''BB''\<rparr>,
        pay_numeric = None, pay_band_col = ''Unknown/Redacted'', is_redacted = False,
        tenure_category = ''Unknown''\<rparr>])
   = [1, 0, 0, 2]
   \<and> map key (age_data
      [\<lparr>src = (scenario_row 1 None)\<lparr>age_bracket := Some ''LESS THAN 20''\<rparr>,
        pay_numeric = None, pay_band_col = ''Redacted''\<rparr>,
       \<lparr>src = (scenario_row 2 None)\<lparr>age_bracket := Some ''20-24''\<rparr>,
        pay_numeric = None, pay_band_col = ''Redacted''\<rparr>])
     = [[''20-24''], [''LESS THAN 20'']]
   \<and> rank age_order (Some ''LESS THAN 20'') = 0
   \<and> rank age_order (Some ''20-24'') = 1"
proof -
  have "map employees (agency_export True
      [\<lparr>src = (scenario_row 1 None)\<lparr>agency_code := Some ''AA''\<rparr>, pay_numeric = None,
        pay_band_col = ''Unknown/Redacted'', is_redacted = False, tenure_category = ''Unknown''\<rparr>,
       \<lparr>src = (scenario_row 2 None)\<lparr>agency := Some ''AGENCY B'', agency_code := Some ''BB''\<rparr>,
        pay_numeric = None, pay_band_col = ''Unknown/Redacted'', is_redacted = False,
        tenure_category = ''Unknown''\<rparr>])
   = [1, 2]
   \<and> map employees (agency_export False
      [\<lparr>src = (scenario_row 1 None)\<lparr>agency_code := Some ''AA''\<rparr>, pay_numeric = None,
        pay_band_col = ''Unknown/Redacted'', is_redacted = False, tenure_category = ''Unknown''\<rparr>,
       \<lparr>src = (scenario_row 2 None)\<lparr>agency := Some ''AGENCY B'', agency_code := Some ''BB''\<rparr>,
        pay_numeric = None, pay_band_col = ''Unknown/Redacted'', is_redacted = False,
        tenure_category = ''Unknown''\<rparr>])
   = [1, 0, 0, 2]"
    by (simp add: agency_export_def groupby_agg_def group_index_def categories_def
        group_key_def group_rows_def count_sum_def scenario_row_def)
  moreover have "map key (age_data
      [\<lparr>src = (scenario_row 1 None)\<lparr>age_bracket := Some ''LESS THAN 20''\<rparr>,
        pay_numeric = None, pay_band_col = ''Redacted''\<rparr>,
       \<lparr>src = (scenario_row 2 None)\<lparr>age_bracket := Some ''20-24''\<rparr>,
        pay_numeric = None, pay_band_col = ''Redacted''\<rparr>])
     = [[''20-24''], [''LESS THAN 20'']]
   \<and> rank age_order (Some ''LESS THAN 20'') = 0
   \<and> rank age_order (Some ''20-24'') = 1"
    by (simp add: age_data_def by_rank_categorical_def categories_def rank_def age_order_def
        category_code_def key_at_def positive_def groupby_agg_def group_index_def
        group_key_def group_rows_def count_sum_def scenario_row_def)
  ultimately show ?thesis
    by simp
qed

section \<open>The states table and the state count\<close>

lemma state_data_filter:
  "state_data df
     = by_employees_desc
         (filter (\<lambda>a. key_at 0 a \<noteq> Some ''REDACTED'' \<and> 0 < employees a)
            (groupby_agg True [\<lambda>r. duty_station_state (src r),
               \<lambda>r. duty_station_state_abbreviation (src r)] df))"
  by (simp add: state_data_def by_employees_desc_def positive_def filter_sort conj_commute)

text \<open>
  C9. The states table of the dashboard script holds exactly the groups of state and
  abbreviation whose state is not \<open>REDACTED\<close> and whose count sum is positive: a
  \<open>REDACTED\<close> group is left out whatever its count sum. \<open>total_states\<close> is the number of
  rows of that table, hence the number of the remaining groups.
\<close>

theorem redacted_state_excluded:
  "set (state_data df)
     = {a \<in> set (groupby_agg True [\<lambda>r. duty_station_state (src r),
                \<lambda>r. duty_station_state_abbreviation (src r)] df).
          key_at 0 a \<noteq> Some ''REDACTED'' \<and> 0 < employees a}
   \<and> total_states (overall df) = length (state_data df)
   \<and> total_states (overall df)
     = length (filter (\<lambda>a. key_at 0 a \<noteq> Some ''REDACTED'' \<and> 0 < employees a)
         (groupby_agg True [\<lambda>r. duty_station_state (src r),
            \<lambda>r. duty_station_state_abbreviation (src r)] df))"
proof -
  have "set (state_data df)
     = {a \<in> set (groupby_agg True [\<lambda>r. duty_station_state (src r),
                \<lambda>r. duty_station_state_abbreviation (src r)] df).
          key_at 0 a \<noteq> Some ''REDACTED'' \<and> 0 < employees a}"
    by (simp only: state_data_filter set_by_employees_desc set_filter)
  moreover have "total_states (overall df) = length (state_data df)"
    by (simp add: overall_def)
  moreover have "length (state_data df)
     = length (filter (\<lambda>a. key_at 0 a \<noteq> Some ''REDACTED'' \<and> 0 < employees a)
         (groupby_agg True [\<lambda>r. duty_station_state (src r),
            \<lambda>r. duty_station_state_abbreviation (src r)] df))"
    by (simp only: state_data_filter by_employees_desc_def length_sort)
  ultimately show ?thesis
    by simp
qed

text \<open>
  An instance: five employees in the \<open>REDACTED\<close> state and three in Virginia. The grouped
  table has both groups with positive sums, the states table has Virginia only, and
  \<open>total_states\<close> is 1.
\<close>

theorem redacted_state_excluded_witness:
  "map employees (groupby_agg True [\<lambda>r. duty_station_state (src r),
       \<lambda>r. duty_station_state_abbreviation (src r)]
      [\<lparr>src = (scenario_row 5 None)\<lparr>duty_station_state := Some ''REDACTED'',
               duty_station_state_abbreviation := Some ''*''\<rparr>,
        pay_numeric = None, pay_band_col = ''Redacted''\<rparr>,
       \<lparr>src = (scenario_row 3 None)\<lparr>duty_station_state := Some ''VIRGINIA'',
               duty_station_state_abbreviation := Some ''VA''\<rparr>,
        pay_numeric = None, pay_band_col = ''Redacted''\<rparr>]) = [5, 3]
   \<and> state_data
      [\<lparr>src = (scenario_row 5 None)\<lparr>duty_station_state := Some ''REDACTED'',
               duty_station_state_abbreviation := Some ''*''\<rparr>,
        pay_numeric = None, pay_band_col = ''Redacted''\<rparr>,
       \<lparr>src = (scenario_row 3 None)\<lparr>duty_station_state := Some ''VIRGINIA'',
               duty_station_state_abbreviation := Some ''VA''\<rparr>,
        pay_numeric = None, pay_band_col = ''Redacted''\<rparr>]
     = [\<lparr>key = [''VIRGINIA'', ''VA''], employees = 3, avg_pay = None\<rparr>]
   \<and> total_states (overall
      [\<lparr>src = (scenario_row 5 None)\<lparr>duty_station_state := Some ''REDACTED'',
               duty_station_state_abbreviation := Some ''*''\<rparr>,
        pay_numeric = None, pay_band_col = ''Redacted''\<rparr>,
       \<lparr>src = (scenario_row 3 None)\<lparr>duty_station_state := Some ''VIRGINIA'',
               duty_station_state_abbreviation := Some ''VA''\<rparr>,
        pay_numeric = None, pay_band_col = ''Redacted''\<rparr>]) = 1"
proof -
  let ?df = "[\<lparr>src = (scenario_row 5 None)\<lparr>duty_station_state := Some ''REDACTED'',
               duty_station_state_abbreviation := Some ''*''\<rparr>,
        pay_numeric = None, pay_band_col = ''Redacted''\<rparr>,
       \<lparr>src = (scenario_row 3 None)\<lparr>duty_station_state := Some ''VIRGINIA'',
               duty_station_state_abbreviation := Some ''VA''\<rparr>,
        pay_numeric = None, pay_band_col = ''Redacted''\<rparr>]"
  have g: "groupby_agg True [\<lambda>r. duty_station_state (src r),
       \<lambda>r. duty_station_state_abbreviation (src r)] ?df
     = [\<lparr>key = [''REDACTED'', ''*''], employees = 5, avg_pay = None\<rparr>,
        \<lparr>key = [''VIRGINIA'', ''VA''], employees = 3, avg_pay = None\<rparr>]"
    by (simp add: groupby_agg_def group_index_def group_key_def group_rows_def count_sum_def
        mean_def round2_def scenario_row_def)
  have s: "state_data ?df = [\<lparr>key = [''VIRGINIA'', ''VA''], employees = 3, avg_pay = None\<rparr>]"
    by (simp add: state_data_filter g by_employees_desc_def key_at_def)
  from redacted_state_excluded [of ?df] have "total_states (overall ?df) = length (state_data ?df)"
    by blast
  with g s show ?thesis
    by simp
qed

section \<open>Runs\<close>

lemma path_join_inject: "path_join dir n = path_join dir n' \<longleftrightarrow> n = n'"
  by (simp add: path_join_def)

lemma open_w_Inr:
  "open_w w dir n c = Inr w' \<Longrightarrow>
     dirs w' = dirs w \<and> files w' = (files w)(path_join dir n \<mapsto> c) \<and> dir \<in> dirs w
     \<and> path_join dir n \<notin> dirs w"
  by (auto simp: open_w_def split: if_splits)

lemma dirs_write_all: "dirs (final (write_all dir ws w)) = dirs w"
proof (induction ws arbitrary: w)
  case Nil
  show ?case by simp
next
  case (Cons x ws)
  obtain n content where x: "x = (n, content)" by (cases x)
  show ?case
    by (auto simp: x Cons.IH split: sum.splits dest: open_w_Inr)
qed

lemma files_write_all:
  "q \<notin> path_join dir ` fst ` set ws \<Longrightarrow> files (final (write_all dir ws w)) q = files w q"
proof (induction ws arbitrary: w)
  case Nil
  show ?case by simp
next
  case (Cons x ws)
  obtain n content where x: "x = (n, content)" by (cases x)
  from Cons.prems have q: "q \<noteq> path_join dir n" and rest: "q \<notin> path_join dir ` fst ` set ws"
    by (auto simp: x)
  show ?case
  proof (cases content)
    case (Inl e)
    then show ?thesis by (simp add: x)
  next
    case (Inr c)
    show ?thesis
    proof (cases "open_w w dir n c")
      case (Inl e)
      with Inr show ?thesis by (simp add: x)
    next
      case w': (Inr w')
      from open_w_Inr [OF w'] q have "files w' q = files w q"
        by simp
      with Inr w' Cons.IH [OF rest, of w'] show ?thesis
        by (simp add: x)
    qed
  qed
qed

lemma write_all_again:
  "distinct (map fst ws) \<Longrightarrow> write_all dir ws (final (write_all dir ws w)) = write_all dir ws w"
proof (induction ws arbitrary: w)
  case Nil
  show ?case by simp
next
  case (Cons x ws)
  obtain n content where x: "x = (n, content)" by (cases x)
  from Cons.prems have fresh: "n \<notin> fst ` set ws" and dist: "distinct (map fst ws)"
    by (auto simp: x)
  show ?case
  proof (cases content)
    case (Inl e)
    then show ?thesis by (simp add: x)
  next
    case (Inr c)
    show ?thesis
    proof (cases "open_w w dir n c")
      case (Inl e)
      with Inr show ?thesis by (simp add: x)
    next
      case w1: (Inr w1)
      let ?w' = "final (write_all dir ws w1)"
      note o = open_w_Inr [OF w1]
      have "path_join dir n \<notin> path_join dir ` fst ` set ws"
        using fresh by (force simp: path_join_inject)
      then have "files ?w' (path_join dir n) = Some c"
        using o by (simp add: files_write_all)
      then have same: "(files ?w')(path_join dir n \<mapsto> c) = files ?w'"
        by (rule map_upd_triv)
      have "open_w ?w' dir n c = Inr ?w'"
        using o by (simp add: open_w_def dirs_write_all same)
      with Inr w1 Cons.IH [OF dist, of w1] show ?thesis
        by (simp add: x)
    qed
  qed
qed

lemma read_csv_cong:
  "files w' p = files w p \<Longrightarrow> dirs w' = dirs w \<Longrightarrow> read_csv w' p = read_csv w p"
  by (simp add: read_csv_def)

lemma exists_cong:
  "files w' p = files w p \<Longrightarrow> dirs w' = dirs w \<Longrightarrow> exists w' p = exists w p"
  by (simp add: exists_def)

lemma data_js_not_input: "path_join OUTPUT_PATH ''data.js'' \<noteq> RAW_DATA_PATH"
  by (simp add: path_join_def OUTPUT_PATH_def RAW_DATA_PATH_def)

lemma run_dashboard_again: "run_dashboard (final (run_dashboard w)) = run_dashboard w"
proof (cases "read_csv w RAW_DATA_PATH")
  case (Inl e)
  then show ?thesis by (simp add: run_dashboard_def)
next
  case rows: (Inr rows)
  show ?thesis
  proof (cases "clean_dashboard rows")
    case (Inl e)
    with rows show ?thesis by (simp add: run_dashboard_def)
  next
    case (Inr df)
    let ?ws = "[(''data.js'', Inr (Data_js (dashboard df)))]"
    let ?w' = "final (write_all OUTPUT_PATH ?ws w)"
    have run: "run_dashboard w = write_all OUTPUT_PATH ?ws w"
      using rows Inr by (simp add: run_dashboard_def)
    have "files ?w' RAW_DATA_PATH = files w RAW_DATA_PATH"
      using data_js_not_input by (intro files_write_all) auto
    then have "read_csv ?w' RAW_DATA_PATH = read_csv w RAW_DATA_PATH"
      using dirs_write_all by (rule read_csv_cong)
    then have "read_csv ?w' RAW_DATA_PATH = Inr rows"
      by (simp only: rows)
    then have "run_dashboard ?w' = write_all OUTPUT_PATH ?ws ?w'"
      using Inr unfolding run_dashboard_def [of ?w'] by (simp only: sum.case)
    also have "\<dots> = write_all OUTPUT_PATH ?ws w"
      by (rule write_all_again) simp
    finally show ?thesis
      by (simp only: run)
  qed
qed


lemma export_names:
  "map fst (exports obs df)
     = [''agency_summary.csv'', ''state_summary.csv'', ''occupation_summary.csv'',
        ''demographics_summary.csv'', ''pay_distribution.csv'', ''appointment_summary.csv'',
        ''overall_stats.json'']"
  by (simp add: exports_def)

lemma export_not_input:
  assumes "n \<in> fst ` set (exports obs df)"
  shows "path_join (PROCESSED_DATA_PATH base) n \<noteq> RAW_DATA_PATH"
proof
  assume "path_join (PROCESSED_DATA_PATH base) n = RAW_DATA_PATH"
  then have "take 5 (rev (base @ ''/data/processed/'' @ n)) = take 5 (rev RAW_DATA_PATH)"
    by (simp add: path_join_def PROCESSED_DATA_PATH_def)
  moreover from assms have "n \<in> set (map fst (exports obs df))"
    by simp
  then have "n \<in> {''agency_summary.csv'', ''state_summary.csv'', ''occupation_summary.csv'',
        ''demographics_summary.csv'', ''pay_distribution.csv'', ''appointment_summary.csv'',
        ''overall_stats.json''}"
    unfolding export_names by simp
  ultimately show False
    by (auto simp: RAW_DATA_PATH_def)
qed

lemma export_not_dir:
  "PROCESSED_DATA_PATH base \<notin> path_join (PROCESSED_DATA_PATH base) ` N"
  "DATA_PATH base \<notin> path_join (PROCESSED_DATA_PATH base) ` N"
  by (auto simp: path_join_def PROCESSED_DATA_PATH_def DATA_PATH_def)

lemma mkdir_parents_Inr:
  "mkdir_parents parent p w = Inr w0 \<Longrightarrow>
     files w0 = files w \<and> dirs w0 = insert p (insert parent (dirs w))
     \<and> files w p = None \<and> files w parent = None"
  by (auto simp: mkdir_parents_def split: if_splits)

lemma mkdir_parents_again:
  assumes "files w' p = None" "files w' parent = None" "p \<in> dirs w'" "parent \<in> dirs w'"
  shows "mkdir_parents parent p w' = Inr w'"
proof -
  from assms(3,4) have "insert p (insert parent (dirs w')) = dirs w'"
    by auto
  with assms(1,2) show ?thesis
    by (simp add: mkdir_parents_def)
qed

lemma run_process_again: "run_process base obs (final (run_process base obs w)) = run_process base obs w"
proof (cases "mkdir_parents (DATA_PATH base) (PROCESSED_DATA_PATH base) w")
  case (Inl e)
  then show ?thesis by (simp add: run_process_def)
next
  case w0: (Inr w0)
  note m = mkdir_parents_Inr [OF w0]
  let ?out = "PROCESSED_DATA_PATH base"
  have again: "run_process base obs w' = r"
    if "files w' ?out = None" "files w' (DATA_PATH base) = None" "dirs w' = dirs w0"
      and "files w' RAW_DATA_PATH = files w0 RAW_DATA_PATH"
      and "\<And>rows df. read_csv w0 RAW_DATA_PATH = Inr rows \<Longrightarrow> clean_process rows = Inr df
         \<Longrightarrow> exists w0 RAW_DATA_PATH \<Longrightarrow> write_all ?out (exports obs df) w' = r"
      and "\<not> (\<exists>rows df. read_csv w0 RAW_DATA_PATH = Inr rows \<and> clean_process rows = Inr df
          \<and> exists w0 RAW_DATA_PATH)
         \<Longrightarrow> w' = w0 \<and> r = run_process base obs w"
    for w' r
  proof -
    have mk: "mkdir_parents (DATA_PATH base) ?out w' = Inr w'"
      using that(1,2,3) m by (intro mkdir_parents_again) auto
    have ex: "exists w' RAW_DATA_PATH = exists w0 RAW_DATA_PATH"
      using that(4,3) by (rule exists_cong)
    have rd: "read_csv w' RAW_DATA_PATH = read_csv w0 RAW_DATA_PATH"
      using that(4,3) by (rule read_csv_cong)
    show ?thesis
    proof (cases "\<exists>rows df. read_csv w0 RAW_DATA_PATH = Inr rows \<and> clean_process rows = Inr df
          \<and> exists w0 RAW_DATA_PATH")
      case True
      then obtain rows df where *: "read_csv w0 RAW_DATA_PATH = Inr rows"
        "clean_process rows = Inr df" "exists w0 RAW_DATA_PATH"
        by blast
      then show ?thesis
        unfolding run_process_def [of base obs w'] using that(5) [OF *]
        by (simp add: mk ex rd)
    next
      case False
      from that(6) [OF False] have eq: "w' = w0" "r = run_process base obs w"
        by simp_all
      have "run_process base obs w0 = run_process base obs w"
        unfolding run_process_def [of base obs w0] run_process_def [of base obs w]
        using mk by (simp add: eq w0)
      then show ?thesis
        by (simp only: eq)
    qed
  qed
  show ?thesis
  proof (cases "\<exists>rows df. read_csv w0 RAW_DATA_PATH = Inr rows \<and> clean_process rows = Inr df
          \<and> exists w0 RAW_DATA_PATH")
    case True
    then obtain rows df where *: "read_csv w0 RAW_DATA_PATH = Inr rows"
      "clean_process rows = Inr df" "exists w0 RAW_DATA_PATH"
      by blast
    let ?r = "write_all ?out (exports obs df) w0"
    have run: "run_process base obs w = ?r"
      using w0 * by (simp add: run_process_def)
    have "run_process base obs (final ?r) = ?r"
    proof (rule again)
      show "files (final ?r) ?out = None"
        using m by (simp add: files_write_all export_not_dir)
      show "files (final ?r) (DATA_PATH base) = None"
        using m by (simp add: files_write_all export_not_dir)
      show "dirs (final ?r) = dirs w0"
        by (rule dirs_write_all)
      show "files (final ?r) RAW_DATA_PATH = files w0 RAW_DATA_PATH"
        using export_not_input [of _ obs df base]
        by (intro files_write_all) force
      show "write_all ?out (exports obs df') (final ?r) = ?r"
        if "read_csv w0 RAW_DATA_PATH = Inr rows'" "clean_process rows' = Inr df'" for rows' df'
      proof -
        from that * have "df' = df" by simp
        then show ?thesis
          by (simp add: write_all_again export_names)
      qed
      show "final ?r = w0 \<and> ?r = run_process base obs w"
        if "\<not> (\<exists>rows df. read_csv w0 RAW_DATA_PATH = Inr rows \<and> clean_process rows = Inr df
          \<and> exists w0 RAW_DATA_PATH)"
        using that * by blast
    qed
    then show ?thesis
      by (simp only: run)
  next
    case False
    then have fin: "final (run_process base obs w) = w0"
      using w0 by (auto simp: run_process_def split: sum.splits)
    have "run_process base obs w0 = run_process base obs w"
    proof (rule again)
      show "files w0 ?out = None" "files w0 (DATA_PATH base) = None"
        using m by simp_all
      show "w0 = w0 \<and> run_process base obs w = run_process base obs w"
        by simp
      show "write_all ?out (exports obs df) w0 = run_process base obs w"
        if "read_csv w0 RAW_DATA_PATH = Inr rows" "clean_process rows = Inr df"
          "exists w0 RAW_DATA_PATH" for rows df
        using that False by blast
    qed simp_all
    then show ?thesis
      by (simp only: fin)
  qed
qed


text \<open>
  C7. Running either pipeline a second time, on the file system the first run left, gives
  the same result as the first run: the same files with the same contents, the same
  directories, the same outcome. The input file is as it was. Every output is written by
  replacing the file, and no output path is the input path.
\<close>

theorem rerun_identical:
  "run_dashboard (final (run_dashboard w)) = run_dashboard w
   \<and> files (final (run_dashboard w)) RAW_DATA_PATH = files w RAW_DATA_PATH
   \<and> run_process base obs (final (run_process base obs w)) = run_process base obs w
   \<and> files (final (run_process base obs w)) RAW_DATA_PATH = files w RAW_DATA_PATH"
proof -
  have "files (final (run_dashboard w)) RAW_DATA_PATH = files w RAW_DATA_PATH"
    using data_js_not_input
    by (auto simp: run_dashboard_def open_w_def split: sum.splits if_splits)
  moreover have "files (final (run_process base obs w)) RAW_DATA_PATH = files w RAW_DATA_PATH"
  proof (cases "mkdir_parents (DATA_PATH base) (PROCESSED_DATA_PATH base) w")
    case (Inl e)
    then show ?thesis by (simp add: run_process_def)
  next
    case (Inr w0)
    have "files (final (write_all (PROCESSED_DATA_PATH base) (exports obs df) w0)) RAW_DATA_PATH
        = files w0 RAW_DATA_PATH" for df
      using export_not_input [of _ obs df base]
      by (intro files_write_all) force
    with mkdir_parents_Inr [OF Inr] show ?thesis
      by (simp add: run_process_def Inr split: sum.splits)
  qed
  ultimately show ?thesis
    by (simp add: run_dashboard_again run_process_again)
qed

text \<open>
  An instance: with a one-row input file and the dashboard directory in place, the dashboard
  script finishes and writes \<open>data.js\<close>; with the same input the full export finishes and
  writes \<open>overall_stats.json\<close>. A second run of either changes nothing.
\<close>

theorem rerun_identical_witness:
  "outcome (run_dashboard
      \<lparr>files = [RAW_DATA_PATH \<mapsto> Source [scenario_row 10 (Some ''50000'')]],
       dirs = {OUTPUT_PATH}\<rparr>) = Finished
   \<and> files (final (run_dashboard
      \<lparr>files = [RAW_DATA_PATH \<mapsto> Source [scenario_row 10 (Some ''50000'')]],
       dirs = {OUTPUT_PATH}\<rparr>)) (path_join OUTPUT_PATH ''data.js'')
     = Some (Data_js (dashboard
         [\<lparr>src = scenario_row 10 (Some ''50000''), pay_numeric = Some 50000,
           pay_band_col = ''$50K-$75K''\<rparr>]))
   \<and> run_dashboard (final (run_dashboard
      \<lparr>files = [RAW_DATA_PATH \<mapsto> Source [scenario_row 10 (Some ''50000'')]],
       dirs = {OUTPUT_PATH}\<rparr>))
     = run_dashboard
      \<lparr>files = [RAW_DATA_PATH \<mapsto> Source [scenario_row 10 (Some ''50000'')]],
       dirs = {OUTPUT_PATH}\<rparr>
   \<and> outcome (run_process ''/repo'' True
      \<lparr>files = [RAW_DATA_PATH \<mapsto> Source [scenario_row 10 (Some ''50000'')]],
       dirs = {}\<rparr>) = Finished
   \<and> files (final (run_process ''/repo'' True
      \<lparr>files = [RAW_DATA_PATH \<mapsto> Source [scenario_row 10 (Some ''50000'')]],
       dirs = {}\<rparr>)) ''/repo/data/processed/overall_stats.json''
     = Some (Stats_json \<lparr>total_employees = 10, total_agencies = 1, total_states = 0,
              snapshot_date = 202511\<rparr>)
   \<and> run_process ''/repo'' True (final (run_process ''/repo'' True
      \<lparr>files = [RAW_DATA_PATH \<mapsto> Source [scenario_row 10 (Some ''50000'')]],
       dirs = {}\<rparr>))
     = run_process ''/repo'' True
      \<lparr>files = [RAW_DATA_PATH \<mapsto> Source [scenario_row 10 (Some ''50000'')]],
       dirs = {}\<rparr>"
proof -
  let ?w = "\<lparr>files = [RAW_DATA_PATH \<mapsto> Source [scenario_row 10 (Some ''50000'')]],
       dirs = {OUTPUT_PATH}\<rparr>"
  let ?v = "\<lparr>files = [RAW_DATA_PATH \<mapsto> Source [scenario_row 10 (Some ''50000'')]],
       dirs = {}\<rparr>"
  let ?d = "\<lparr>src = scenario_row 10 (Some ''50000''), pay_numeric = Some 50000,
           pay_band_col = ''$50K-$75K''\<rparr>"
  let ?e = "\<lparr>src = scenario_row 10 (Some ''50000''), pay_numeric = Some 50000,
               pay_band_col = ''$40K-$60K'', is_redacted = False,
               tenure_category = ''Unknown''\<rparr>"
  have c: "clean_dashboard [scenario_row 10 (Some ''50000'')] = Inr [?d]"
    by (simp add: clean_dashboard_def derive_dashboard_def to_numeric_def float_literal_50000
        pay_band_Some scenario_row_def)
  have "run_dashboard ?w
      = \<lparr>final = ?w\<lparr>files := (files ?w)(path_join OUTPUT_PATH ''data.js''
                \<mapsto> Data_js (dashboard [?d]))\<rparr>,
         printed = [], outcome = Finished\<rparr>"
    using data_js_not_input
    by (simp add: run_dashboard_def read_csv_def c open_w_def path_join_def OUTPUT_PATH_def)
  then have dash: "outcome (run_dashboard ?w) = Finished"
    "files (final (run_dashboard ?w)) (path_join OUTPUT_PATH ''data.js'')
       = Some (Data_js (dashboard [?d]))"
    by simp_all
  have c': "clean_process [scenario_row 10 (Some ''50000'')] = Inr [?e]"
    by (simp add: clean_process_def derive_process_def to_numeric_def float_literal_50000
        categorize_pay_def categorize_tenure_def scenario_row_def)
  have o: "overall_stats [?e]
       = Inr \<lparr>total_employees = 10, total_agencies = 1, total_states = 0,
              snapshot_date = 202511\<rparr>"
    by (simp add: overall_stats_def iloc0_def count_sum_def nunique_def scenario_row_def)
  have m: "mkdir_parents (DATA_PATH ''/repo'') (PROCESSED_DATA_PATH ''/repo'') ?v
      = Inr (?v\<lparr>dirs := {''/repo/data/processed'', ''/repo/data''}\<rparr>)"
    by (simp add: mkdir_parents_def DATA_PATH_def PROCESSED_DATA_PATH_def RAW_DATA_PATH_def)
  have "run_process ''/repo'' True ?v
      = write_all (PROCESSED_DATA_PATH ''/repo'') (exports True [?e])
          (?v\<lparr>dirs := {''/repo/data/processed'', ''/repo/data''}\<rparr>)"
    by (simp add: run_process_def m exists_def read_csv_def c')
  then have proc: "outcome (run_process ''/repo'' True ?v) = Finished"
    "files (final (run_process ''/repo'' True ?v)) ''/repo/data/processed/overall_stats.json''
       = Some (Stats_json \<lparr>total_employees = 10, total_agencies = 1, total_states = 0,
              snapshot_date = 202511\<rparr>)"
    by (simp_all add: exports_def o open_w_def path_join_def PROCESSED_DATA_PATH_def)
  from rerun_identical [where w = ?w] rerun_identical [where w = ?v and base = "''/repo''"
      and obs = True] dash proc
  show ?thesis
    by simp
qed

section \<open>A missing input file\<close>

lemma input_not_made_dir:
  "RAW_DATA_PATH \<noteq> PROCESSED_DATA_PATH base" "RAW_DATA_PATH \<noteq> DATA_PATH base"
proof -
  have "take 5 (rev RAW_DATA_PATH) \<noteq> take 5 (rev (PROCESSED_DATA_PATH base))"
    "take 5 (rev RAW_DATA_PATH) \<noteq> take 5 (rev (DATA_PATH base))"
    by (simp_all add: RAW_DATA_PATH_def PROCESSED_DATA_PATH_def DATA_PATH_def)
  then show "RAW_DATA_PATH \<noteq> PROCESSED_DATA_PATH base" "RAW_DATA_PATH \<noteq> DATA_PATH base"
    by auto
qed

lemma exists_after_mkdir:
  assumes "mkdir_parents (DATA_PATH base) (PROCESSED_DATA_PATH base) w = Inr w0"
  shows "exists w0 RAW_DATA_PATH = exists w RAW_DATA_PATH"
    and "read_csv w0 RAW_DATA_PATH = read_csv w RAW_DATA_PATH"
  using mkdir_parents_Inr [OF assms] input_not_made_dir [of base]
  by (simp_all add: exists_def read_csv_def)

text \<open>
  C8. When nothing exists at the input path, the dashboard script ends at \<open>read_csv\<close> with
  an uncaught \<open>FileNotFoundError\<close> naming the path, and the full export prints
  "ERROR: Raw data file not found at" with the path and calls \<open>sys.exit(1)\<close>. Either way
  no file is written or changed and the exit status is 1. (The full export has made its
  output directory by then; should that fail, the run ends there, with status 1 as well.)
\<close>

theorem missing_input_fails:
  assumes "\<not> exists w RAW_DATA_PATH"
  shows "run_dashboard w
       = \<lparr>final = w, printed = [], outcome = Uncaught (FileNotFoundError RAW_DATA_PATH)\<rparr>
     \<and> exit_status (outcome (run_dashboard w)) = 1
     \<and> files (final (run_process base obs w)) = files w
     \<and> exit_status (outcome (run_process base obs w)) = 1
     \<and> (mkdir_parents (DATA_PATH base) (PROCESSED_DATA_PATH base) w = Inr w0 \<longrightarrow>
          run_process base obs w
            = \<lparr>final = w0,
               printed = [''ERROR: Raw data file not found at '' @ RAW_DATA_PATH],
               outcome = Sys_exit 1\<rparr>)"
proof -
  from assms have "read_csv w RAW_DATA_PATH = Inl (FileNotFoundError RAW_DATA_PATH)"
    by (simp add: exists_def read_csv_def)
  then have dash: "run_dashboard w
       = \<lparr>final = w, printed = [], outcome = Uncaught (FileNotFoundError RAW_DATA_PATH)\<rparr>"
    by (simp add: run_dashboard_def)
  have proc: "run_process base obs w
            = \<lparr>final = w0,
               printed = [''ERROR: Raw data file not found at '' @ RAW_DATA_PATH],
               outcome = Sys_exit 1\<rparr>"
    if "mkdir_parents (DATA_PATH base) (PROCESSED_DATA_PATH base) w = Inr w0" for w0
    using that assms exists_after_mkdir(1) [OF that] by (simp add: run_process_def)
  have "files (final (run_process base obs w)) = files w
     \<and> exit_status (outcome (run_process base obs w)) = 1"
  proof (cases "mkdir_parents (DATA_PATH base) (PROCESSED_DATA_PATH base) w")
    case (Inl e)
    then show ?thesis by (simp add: run_process_def)
  next
    case (Inr w1)
    from proc [OF Inr] mkdir_parents_Inr [OF Inr] show ?thesis
      by simp
  qed
  with dash proc show ?thesis
    by simp
qed

theorem missing_input_fails_witness:
  "\<not> exists \<lparr>files = \<lambda>p. None, dirs = {}\<rparr> RAW_DATA_PATH
   \<and> run_dashboard \<lparr>files = \<lambda>p. None, dirs = {}\<rparr>
       = \<lparr>final = \<lparr>files = \<lambda>p. None, dirs = {}\<rparr>, printed = [],
          outcome = Uncaught (FileNotFoundError RAW_DATA_PATH)\<rparr>
   \<and> run_process ''/repo'' True \<lparr>files = \<lambda>p. None, dirs = {}\<rparr>
       = \<lparr>final = \<lparr>files = \<lambda>p. None, dirs = {''/repo/data/processed'', ''/repo/data''}\<rparr>,
          printed = [''ERROR: Raw data file not found at '' @ RAW_DATA_PATH],
          outcome = Sys_exit 1\<rparr>"
proof -
  have e: "\<not> exists \<lparr>files = \<lambda>p. None, dirs = {}\<rparr> RAW_DATA_PATH"
    by (simp add: exists_def)
  have m: "mkdir_parents (DATA_PATH ''/repo'') (PROCESSED_DATA_PATH ''/repo'')
             \<lparr>files = \<lambda>p. None, dirs = {}\<rparr>
           = Inr \<lparr>files = \<lambda>p. None, dirs = {''/repo/data/processed'', ''/repo/data''}\<rparr>"
    by (simp add: mkdir_parents_def DATA_PATH_def PROCESSED_DATA_PATH_def)
  from missing_input_fails [OF e, of "''/repo''" True] m e show ?thesis
    by simp
qed

section \<open>The snapshot date\<close>

lemma write_all_raises:
  "(n, Inl e) \<in> set ws \<Longrightarrow> \<exists>e'. outcome (write_all dir ws w) = Uncaught e'"
proof (induction ws arbitrary: w)
  case Nil
  then show ?case by simp
next
  case (Cons x ws)
  obtain m content where x: "x = (m, content)" by (cases x)
  show ?case
  proof (cases content)
    case (Inl e1)
    then show ?thesis by (simp add: x)
  next
    case (Inr c)
    with Cons.prems have "(n, Inl e) \<in> set ws"
      by (auto simp: x)
    then have "\<exists>e'. outcome (write_all dir ws w') = Uncaught e'" for w'
      by (rule Cons.IH)
    with Inr show ?thesis
      by (simp add: x split: sum.splits)
  qed
qed

lemma write_all_unwritten:
  "\<forall>c. (n, Inr c) \<notin> set ws \<Longrightarrow>
     files (final (write_all dir ws w)) (path_join dir n) = files w (path_join dir n)"
proof (induction ws arbitrary: w)
  case Nil
  show ?case by simp
next
  case (Cons x ws)
  obtain m content where x: "x = (m, content)" by (cases x)
  from Cons.prems have rest: "\<forall>c. (n, Inr c) \<notin> set ws"
    by simp
  show ?case
  proof (cases content)
    case (Inl e)
    then show ?thesis by (simp add: x)
  next
    case (Inr c)
    with Cons.prems have "m \<noteq> n"
      by (auto simp: x)
    show ?thesis
    proof (cases "open_w w dir m c")
      case (Inl e)
      with Inr show ?thesis by (simp add: x)
    next
      case w': (Inr w')
      from open_w_Inr [OF w'] \<open>m \<noteq> n\<close>
      have "files w' (path_join dir n) = files w (path_join dir n)"
        by (simp add: path_join_inject)
      with Inr w' Cons.IH [OF rest, of w'] show ?thesis
        by (simp add: x)
    qed
  qed
qed

lemma overall_stats_Nil: "overall_stats [] = Inl IndexError"
  by (simp add: overall_stats_def iloc0_def)

lemma clean_process_Nil: "clean_process [] = Inr []"
  by (simp add: clean_process_def)

lemma clean_process_Cons:
  "clean_process (x # xs) = Inr df \<Longrightarrow> \<exists>d ds. df = d # ds \<and> src d = x"
  by (auto simp: clean_process_def derive_process_def split: sum.splits)

text \<open>
  C10. \<open>overall_stats\<close> takes \<open>snapshot_date\<close> from the first row: on a table without
  rows it raises \<open>IndexError\<close>, and on any other table it succeeds with the
  \<open>snapshot_yyyymm\<close> of the first source row. A run of the full export on an input file
  without data rows therefore ends in an uncaught exception and leaves
  \<open>overall_stats.json\<close> unwritten.
\<close>

theorem snapshot_date_first_row:
  "overall_stats [] = Inl IndexError
   \<and> (\<exists>s. overall_stats (d # ds) = Inr s \<and> snapshot_date s = snapshot_yyyymm (src d))
   \<and> (clean_process (x # xs) = Inr df \<longrightarrow>
        (\<exists>s. overall_stats df = Inr s \<and> snapshot_date s = snapshot_yyyymm x))
   \<and> (files w RAW_DATA_PATH = Some (Source []) \<longrightarrow>
        (\<exists>e. outcome (run_process base obs w) = Uncaught e)
        \<and> files (final (run_process base obs w))
              (path_join (PROCESSED_DATA_PATH base) ''overall_stats.json'')
            = files w (path_join (PROCESSED_DATA_PATH base) ''overall_stats.json''))"
proof -
  have first: "\<exists>s. overall_stats (d # ds) = Inr s \<and> snapshot_date s = snapshot_yyyymm (src d)"
    for d :: full_row and ds
    by (simp add: overall_stats_def iloc0_def)
  have cleaned: "\<exists>s. overall_stats df = Inr s \<and> snapshot_date s = snapshot_yyyymm x"
    if "clean_process (x # xs) = Inr df"
    using clean_process_Cons [OF that] first by auto
  have run: "(\<exists>e. outcome (run_process base obs w) = Uncaught e)
        \<and> files (final (run_process base obs w))
              (path_join (PROCESSED_DATA_PATH base) ''overall_stats.json'')
            = files w (path_join (PROCESSED_DATA_PATH base) ''overall_stats.json'')"
    if input: "files w RAW_DATA_PATH = Some (Source [])"
  proof (cases "mkdir_parents (DATA_PATH base) (PROCESSED_DATA_PATH base) w")
    case (Inl e)
    then show ?thesis by (simp add: run_process_def)
  next
    case (Inr w0)
    let ?ws = "exports obs []"
    from input have "exists w RAW_DATA_PATH" "read_csv w RAW_DATA_PATH = Inr []"
      by (simp_all add: exists_def read_csv_def)
    with exists_after_mkdir [OF Inr]
    have r: "run_process base obs w = write_all (PROCESSED_DATA_PATH base) ?ws w0"
      by (simp add: run_process_def Inr clean_process_Nil)
    have "(''overall_stats.json'', Inl IndexError) \<in> set ?ws"
      by (simp add: exports_def overall_stats_Nil)
    then have "\<exists>e. outcome (write_all (PROCESSED_DATA_PATH base) ?ws w0) = Uncaught e"
      by (rule write_all_raises)
    moreover have "\<forall>c. (''overall_stats.json'', Inr c) \<notin> set ?ws"
      by (simp add: exports_def overall_stats_Nil)
    then have "files (final (write_all (PROCESSED_DATA_PATH base) ?ws w0))
              (path_join (PROCESSED_DATA_PATH base) ''overall_stats.json'')
            = files w0 (path_join (PROCESSED_DATA_PATH base) ''overall_stats.json'')"
      by (rule write_all_unwritten)
    ultimately show ?thesis
      using mkdir_parents_Inr [OF Inr] by (simp add: r)
  qed
  from first cleaned run show ?thesis
    by (simp add: overall_stats_Nil)
qed


lemma run_process_empty_input:
  "run_process ''/repo'' True \<lparr>files = [RAW_DATA_PATH \<mapsto> Source []], dirs = {}\<rparr>
     = \<lparr>final =
          \<lparr>files = [RAW_DATA_PATH \<mapsto> Source [],
                    ''/repo/data/processed/agency_summary.csv'' \<mapsto> Csv_agg [],
                    ''/repo/data/processed/state_summary.csv'' \<mapsto> Csv_agg [],
                    ''/repo/data/processed/occupation_summary.csv'' \<mapsto> Csv_agg [],
                    ''/repo/data/processed/demographics_summary.csv'' \<mapsto> Csv_agg [],
                    ''/repo/data/processed/pay_distribution.csv'' \<mapsto> Csv_sum [],
                    ''/repo/data/processed/appointment_summary.csv'' \<mapsto> Csv_agg []],
            dirs = {''/repo/data/processed'', ''/repo/data''}\<rparr>,
        printed = [], outcome = Uncaught IndexError\<rparr>"
  by (simp add: run_process_def mkdir_parents_def DATA_PATH_def PROCESSED_DATA_PATH_def
      RAW_DATA_PATH_def exists_def read_csv_def clean_process_def exports_def open_w_def
      path_join_def overall_stats_Nil agency_export_def state_export_def
      occupation_export_def demographics_export_def pay_distribution_def
      appointment_export_def groupby_agg_def groupby_sum_def group_index_def)

theorem snapshot_date_first_row_witness:
  "files \<lparr>files = [RAW_DATA_PATH \<mapsto> Source []], dirs = {}\<rparr> RAW_DATA_PATH = Some (Source [])
   \<and> outcome (run_process ''/repo'' True \<lparr>files = [RAW_DATA_PATH \<mapsto> Source []], dirs = {}\<rparr>)
       = Uncaught IndexError
   \<and> files (final (run_process ''/repo'' True
         \<lparr>files = [RAW_DATA_PATH \<mapsto> Source []], dirs = {}\<rparr>))
       (path_join (PROCESSED_DATA_PATH ''/repo'') ''overall_stats.json'') = None
   \<and> files (final (run_process ''/repo'' True
         \<lparr>files = [RAW_DATA_PATH \<mapsto> Source []], dirs = {}\<rparr>))
       (path_join (PROCESSED_DATA_PATH ''/repo'') ''agency_summary.csv'') = Some (Csv_agg [])
   \<and> clean_process [scenario_row 10 (Some ''50000'')]
       = Inr [\<lparr>src = scenario_row 10 (Some ''50000''), pay_numeric = Some 50000,
               pay_band_col = ''$40K-$60K'', is_redacted = False,
               tenure_category = ''Unknown''\<rparr>]
   \<and> overall_stats [\<lparr>src = scenario_row 10 (Some ''50000''), pay_numeric = Some 50000,
               pay_band_col = ''$40K-$60K'', is_redacted = False,
               tenure_category = ''Unknown''\<rparr>]
       = Inr \<lparr>total_employees = 10, total_agencies = 1, total_states = 0,
              snapshot_date = 202511\<rparr>"
proof -
  let ?w = "\<lparr>files = [RAW_DATA_PATH \<mapsto> Source []], dirs = {}\<rparr>"
  let ?d = "\<lparr>src = scenario_row 10 (Some ''50000''), pay_numeric = Some 50000,
               pay_band_col = ''$40K-$60K'', is_redacted = False,
               tenure_category = ''Unknown''\<rparr>"
  have c: "clean_process [scenario_row 10 (Some ''50000'')] = Inr [?d]"
    by (simp add: clean_process_def derive_process_def to_numeric_def float_literal_50000
        categorize_pay_def categorize_tenure_def scenario_row_def)
  have o: "overall_stats [?d]
       = Inr \<lparr>total_employees = 10, total_agencies = 1, total_states = 0,
              snapshot_date = 202511\<rparr>"
    by (simp add: overall_stats_def iloc0_def count_sum_def nunique_def scenario_row_def)
  have r: "outcome (run_process ''/repo'' True ?w) = Uncaught IndexError"
    "files (final (run_process ''/repo'' True ?w))
       (path_join (PROCESSED_DATA_PATH ''/repo'') ''overall_stats.json'') = None"
    "files (final (run_process ''/repo'' True ?w))
       (path_join (PROCESSED_DATA_PATH ''/repo'') ''agency_summary.csv'') = Some (Csv_agg [])"
    unfolding run_process_empty_input
    by (simp_all add: path_join_def PROCESSED_DATA_PATH_def RAW_DATA_PATH_def)
  from snapshot_date_first_row [of ?d "[]" "scenario_row 10 (Some ''50000'')" "[]" "[?d]" ?w
      "''/repo''" True] c o r
  show ?thesis
    by simp
qed

end
